theory Spec2Isabelle
  imports Main
begin

section \<open>Python string helpers\<close>

text \<open>
  A string is the list of the UTF-8 bytes of a Python \<^verbatim>\<open>str\<close>. The helpers below are the Python
  string operations that \<^verbatim>\<open>pw-to-pr.py\<close> uses: \<^verbatim>\<open>str.find\<close>,
  \<^verbatim>\<open>str.split\<close> on one separator character, \<^verbatim>\<open>str(int)\<close>,
  \<^verbatim>\<open>int(str)\<close> on a string of decimal digits, and the two shapes of
  \<^verbatim>\<open>re.search\<close> whose pattern is fixed in the source.
\<close>

definition startswith :: "string \<Rightarrow> string \<Rightarrow> bool" where
  "startswith s p = (take (length p) s = p)"

text \<open>\<^verbatim>\<open>s.find(sub)\<close>: the lowest index where \<open>sub\<close> occurs in \<open>s\<close>, or \<open>-1\<close>.\<close>

fun py_find :: "string \<Rightarrow> string \<Rightarrow> int" where
  "py_find [] sub = (if sub = [] then 0 else - 1)"
| "py_find (c # cs) sub =
     (if startswith (c # cs) sub then 0
      else (let r = py_find cs sub in if r < 0 then - 1 else r + 1))"

text \<open>\<^verbatim>\<open>s.split(sep)\<close> for a separator of one character.\<close>

fun py_split :: "char \<Rightarrow> string \<Rightarrow> string list" where
  "py_split sep [] = [[]]"
| "py_split sep (c # cs) =
     (if c = sep then [] # py_split sep cs
      else (case py_split sep cs of
              [] \<Rightarrow> [[c]]
            | l # ls \<Rightarrow> (c # l) # ls))"

definition newline :: char where
  "newline = CHR 0x0A"

text \<open>\<^verbatim>\<open>str(n)\<close> for an integer: its decimal digits, with a minus sign below zero.\<close>

definition digit_char :: "nat \<Rightarrow> char" where
  "digit_char d = ''0123456789'' ! d"

function str_nat :: "nat \<Rightarrow> string" where
  "str_nat n = (if n < 10 then [digit_char n] else str_nat (n div 10) @ [digit_char (n mod 10)])"
  by pat_completeness auto
termination
  by (relation "measure (\<lambda>n. n)") auto

definition py_str :: "int \<Rightarrow> string" where
  "py_str i = (if i < 0 then CHR ''-'' # str_nat (nat (- i)) else str_nat (nat i))"

text \<open>\<^verbatim>\<open>[0-9]\<close> of a regular expression, and \<^verbatim>\<open>int(s)\<close> on a string of such digits.\<close>

definition is_digit :: "char \<Rightarrow> bool" where
  "is_digit c = (c \<in> set ''0123456789'')"

definition digit_val :: "char \<Rightarrow> nat" where
  "digit_val c = length (takeWhile (\<lambda>d. d \<noteq> c) ''0123456789'')"

definition py_int :: "string \<Rightarrow> int" where
  "py_int ds = int (foldl (\<lambda>a c. 10 * a + digit_val c) 0 ds)"

text \<open>
  \<^verbatim>\<open>re.search(lit, s, re.IGNORECASE)\<close> for a pattern \<open>lit\<close> of ASCII
  characters without metacharacters: the pattern matches at some position of \<open>s\<close>,
  character by character, without case. A string is the UTF-8 bytes of the Python
  \<^verbatim>\<open>str\<close>. Without case, an ASCII letter is also matched by its other case and,
  as Python's \<^verbatim>\<open>re\<close> has it for \<^verbatim>\<open>str\<close> patterns, \<^verbatim>\<open>k\<close> by the Kelvin
  sign U+212A, \<^verbatim>\<open>s\<close> by the long s U+017F, and \<^verbatim>\<open>i\<close> by the dotted capital
  U+0130 and the dotless small U+0131; no other character is matched by an ASCII one.
\<close>

definition lower :: "char \<Rightarrow> char" where
  "lower c =
     (case map_of (zip ''ABCDEFGHIJKLMNOPQRSTUVWXYZ'' ''abcdefghijklmnopqrstuvwxyz'') c of
        None \<Rightarrow> c
      | Some l \<Rightarrow> l)"

text \<open>
  The first character of a text, folded, and the text after it: the four characters
  above are two or three bytes long.
\<close>

definition next_folded :: "string \<Rightarrow> (char \<times> string) option" where
  "next_folded s =
     (case s of
        [] \<Rightarrow> None
      | c # cs \<Rightarrow>
          if startswith s [CHR 0xE2, CHR 0x84, CHR 0xAA] then Some (CHR ''k'', drop 3 s)
          else if startswith s [CHR 0xC5, CHR 0xBF] then Some (CHR ''s'', drop 2 s)
          else if startswith s [CHR 0xC4, CHR 0xB0] then Some (CHR ''i'', drop 2 s)
          else if startswith s [CHR 0xC4, CHR 0xB1] then Some (CHR ''i'', drop 2 s)
          else Some (lower c, cs))"

fun match_here :: "string \<Rightarrow> string \<Rightarrow> bool" where
  "match_here [] s = True"
| "match_here (p # ps) s =
     (case next_folded s of
        None \<Rightarrow> False
      | Some (c, rest) \<Rightarrow> c = lower p \<and> match_here ps rest)"

fun search_from :: "string \<Rightarrow> string \<Rightarrow> bool" where
  "search_from lit [] = match_here lit []"
| "search_from lit (c # cs) = (match_here lit (c # cs) \<or> search_from lit cs)"

definition re_search_literal_icase :: "string \<Rightarrow> string \<Rightarrow> bool" where
  "re_search_literal_icase lit s = search_from lit s"

text \<open>\<^verbatim>\<open>os.path.join(a, b)\<close> for two components, and \<^verbatim>\<open>sep.join(xs)\<close>.\<close>

definition path_join :: "string \<Rightarrow> string \<Rightarrow> string" where
  "path_join a b =
     (if startswith b ''/'' then b
      else if a = [] \<or> last a = CHR ''/'' then a @ b
      else a @ ''/'' @ b)"

fun py_join :: "string \<Rightarrow> string list \<Rightarrow> string" where
  "py_join sep [] = []"
| "py_join sep [x] = x"
| "py_join sep (x # y # ys) = x @ sep @ py_join sep (y # ys)"

section \<open>Data model\<close>

text \<open>
  The JSON documents of the tracker, as records of the fields the program reads.
  A series lists references to its patches; the full patch comes from the patch
  endpoint; the list endpoint gives, for each patch, the ids of its series (the key
  \<^verbatim>\<open>series\<close> may be missing, which is \<open>None\<close>).
\<close>

record patch_ref =
  pid :: int
  pname :: string
  mbox :: string
  msgid :: string

record patch =
  check :: string
  content :: string
  diff :: "string option"

record patch_item =
  item_id :: int
  item_series :: "int list option"

record series =
  series_id :: int
  series_name :: "string option"
  patches :: "patch_ref list"
  submitter_email :: string

text \<open>A pull request of the forge, and the body of a check POST.\<close>

record pull =
  pull_number :: int
  pull_title :: string
  head_ref :: string

record check_content =
  cc_user :: int
  cc_state :: int
  cc_target_url :: string
  cc_context :: string
  cc_description :: string

text \<open>The configuration file and the command line.\<close>

record repo_detail =
  include_strs :: "string list"
  exclude_strs :: "string list"

record email_config =
  enable :: bool
  server :: string
  port :: int
  starttls :: bool
  user :: string
  default_to :: string
  only_maintainers :: bool
  maintainers :: "string list"

record config =
  repo_details :: "string \<Rightarrow> repo_detail option"
  email :: email_config

record args =
  config_file :: string
  patch_state :: "string list"
  repo :: string
  branch :: string
  key_str :: string
  src_dir :: string
  ignore_check :: bool
  no_update_check :: bool
  dry_run :: bool

record message =
  msg_subject :: string
  msg_reply_to :: string
  msg_from :: string
  msg_to :: string
  msg_in_reply_to :: string
  msg_references :: string
  msg_body :: string

section \<open>Effects and errors\<close>

text \<open>
  Every call that leaves the process is an event of the trace, in program order.
  Console output is left out, except in \<^verbatim>\<open>pw_submit_check\<close>, whose log lines
  are events too. An exception is a value of \<open>error\<close>; a computation returns the
  events it performed together with its result or the exception that ended it.
\<close>

datatype event =
    Http_Get string
  | Http_Post string "(string \<times> string) list" check_content
  | Cmd_Run "string list" string
  | Makedirs string
  | Write_File string string
  | Create_Pull string string string string
  | Get_Pull int
  | Edit_Closed int
  | Get_Git_Ref string
  | Delete_Ref string
  | Smtp_Connect string int
  | Smtp_Starttls
  | Smtp_Login string string
  | Smtp_Sendmail string "string list" message
  | Smtp_Quit
  | Print string
  | Print_Content check_content

datatype error =
    HTTPError string
  | IndexError
  | KeyError string
  | TypeError
  | GithubException
  | UnboundLocalError
  | SystemExit int

type_synonym 'a io = "event list \<times> (error + 'a)"

definition io_return :: "'a \<Rightarrow> 'a io" where
  "io_return x = ([], Inr x)"

definition io_raise :: "error \<Rightarrow> 'a io" where
  "io_raise e = ([], Inl e)"

definition io_emit :: "event \<Rightarrow> unit io" where
  "io_emit e = ([e], Inr ())"

definition io_bind :: "'a io \<Rightarrow> ('a \<Rightarrow> 'b io) \<Rightarrow> 'b io" where
  "io_bind m f =
     (case m of
        (es, Inl e) \<Rightarrow> (es, Inl e)
      | (es, Inr x) \<Rightarrow> (case f x of (es', r) \<Rightarrow> (es @ es', r)))"

text \<open>
  A \<^verbatim>\<open>for\<close> loop whose body returns nothing: the body runs on each element in
  order, and an exception in the body ends the loop. \<^verbatim>\<open>continue\<close> is the body
  returning early.
\<close>

fun io_foreach :: "('a \<Rightarrow> unit io) \<Rightarrow> 'a list \<Rightarrow> unit io" where
  "io_foreach f [] = ([], Inr ())"
| "io_foreach f (x # xs) =
     (case f x of
        (es, Inl e) \<Rightarrow> (es, Inl e)
      | (es, Inr _) \<Rightarrow> (case io_foreach f xs of (es', r) \<Rightarrow> (es @ es', r)))"

section \<open>The world outside the process\<close>

text \<open>
  The tracker, the forge, the file system, git and the mail server answer through an
  oracle that is fixed during a run: the answer to a call depends on its arguments
  only. An HTTP response carries its status code, its decoded body and the URL of the
  \<^verbatim>\<open>next\<close> link when it has one. \<open>re_search\<close> is
  \<^verbatim>\<open>re.search(pattern, string, re.IGNORECASE)\<close> on the patterns of the
  configuration file, which are regular expressions.

  The failures of the world that the model has: an HTTP status other than the expected
  one, a command that returns a non-zero code, a missing environment variable or
  configuration file, a pull request or a git reference that the forge does not find,
  a pull request that the forge refuses to create, and a mail session that fails. A
  request always gets a response, and writing a file or a directory always succeeds.
\<close>

record 'a response =
  status_code :: int
  body :: 'a
  links_next :: "string option"

datatype smtp_outcome = Smtp_Ok | Smtp_Connect_Fails | Smtp_Login_Fails | Smtp_Sendmail_Fails

record env =
  get_series :: "string \<Rightarrow> series response"
  get_patch :: "string \<Rightarrow> patch response"
  get_patches :: "string \<Rightarrow> patch_item list response"
  get_mbox :: "string \<Rightarrow> string response"
  post_check :: "string \<Rightarrow> (string \<times> string) list \<Rightarrow> check_content \<Rightarrow> string response"
  environ :: "string \<Rightarrow> string option"
  run_cmd :: "string list \<Rightarrow> string \<Rightarrow> int \<times> string \<times> string"
  path_exists :: "string \<Rightarrow> bool"
  temp_root :: string
  load_config :: "string \<Rightarrow> config option"
  re_search :: "string \<Rightarrow> string \<Rightarrow> bool"
  open_pulls :: "string \<Rightarrow> pull list"
  create_pull_ok :: "string \<Rightarrow> string \<Rightarrow> string \<Rightarrow> string \<Rightarrow> bool"
  get_pull :: "int \<Rightarrow> pull option"
  git_ref_exists :: "string \<Rightarrow> bool"
  smtp :: smtp_outcome

section \<open>Constants (lines 24-48)\<close>

definition PW_BASE_URL :: string where
  "PW_BASE_URL = ''https://patchwork.kernel.org/api''"

definition PW_PROJECT_ID :: string where
  "PW_PROJECT_ID = ''395''"

definition PR_TITLE_PREFIX :: string where
  "PR_TITLE_PREFIX = ''PW_SID''"

text \<open>\<^verbatim>\<open>EMAIL_MESSAGE.format(text)\<close>: the template has one placeholder.\<close>

definition EMAIL_MESSAGE :: "string \<Rightarrow> string" where
  "EMAIL_MESSAGE text =
     ''This is an automated email and please do not reply to this email.'' @ [newline, newline]
     @ ''Dear Submitter,'' @ [newline, newline]
     @ ''Thank you for submitting the patches to the linux bluetooth mailing list.'' @ [newline]
     @ ''While preparing the CI tests, the patches you submitted couldn'' @ [CHR 0x27]
     @ ''t be applied to the current HEAD of the repository.'' @ [newline, newline]
     @ ''----- Output -----'' @ [newline]
     @ text @ [newline, newline]
     @ ''Please resolve the issue and submit the patches again.'' @ [newline, newline, newline]
     @ ''---'' @ [newline]
     @ ''Regards,'' @ [newline]
     @ ''Linux Bluetooth'' @ [newline, newline]"

section \<open>HTTP, commands and git (lines 51-134)\<close>

definition requests_url :: "(string \<Rightarrow> 'a response) \<Rightarrow> string \<Rightarrow> 'a response io" where
  "requests_url fetch url =
     (let resp = fetch url in
      ([Http_Get url],
       if status_code resp \<noteq> 200 then Inl (HTTPError (''GET '' @ py_str (status_code resp)))
       else Inr resp))"

definition requests_post ::
  "env \<Rightarrow> string \<Rightarrow> (string \<times> string) list \<Rightarrow> check_content \<Rightarrow> string response io" where
  "requests_post env url headers cont =
     (let resp = post_check env url headers cont in
      ([Http_Post url headers cont],
       if status_code resp \<noteq> 201 then Inl (HTTPError (''POST '' @ py_str (status_code resp)))
       else Inr resp))"

definition cmd_run :: "env \<Rightarrow> string list \<Rightarrow> string \<Rightarrow> (int \<times> string \<times> string) io" where
  "cmd_run env cmd cwd =
     (case run_cmd env cmd cwd of
        (returncode, stdout, stderr) \<Rightarrow>
          ([Cmd_Run cmd cwd],
           if returncode \<noteq> 0 then Inr (returncode, '''', stderr)
           else Inr (0, stdout, stderr)))"

definition git_checkout :: "env \<Rightarrow> string \<Rightarrow> string \<Rightarrow> bool \<Rightarrow> bool io" where
  "git_checkout env branch_name cwd create_branch =
     (let cmd = [''git'', ''checkout''] @ (if create_branch then [''-b'', branch_name] else [branch_name])
      in io_bind (cmd_run env cmd cwd) (\<lambda>(ret, stdout, stderr).
           if ret \<noteq> 0 then io_return False else io_return True))"

definition git_push :: "env \<Rightarrow> string \<Rightarrow> string \<Rightarrow> string \<Rightarrow> bool \<Rightarrow> bool io" where
  "git_push env remote branch_name cwd force =
     (let cmd = [''git'', ''push'', remote, branch_name] @ (if force then [''--force''] else [])
      in io_bind (cmd_run env cmd cwd) (\<lambda>(ret, stdout, stderr).
           if ret \<noteq> 0 then io_return False else io_return True))"

definition git_am :: "env \<Rightarrow> string \<Rightarrow> string \<Rightarrow> (int \<times> string \<times> string) io" where
  "git_am env patch_path cwd = cmd_run env [''git'', ''am'', patch_path] cwd"

definition git_am_abort :: "env \<Rightarrow> string \<Rightarrow> (int \<times> string \<times> string) io" where
  "git_am_abort env cwd = cmd_run env [''git'', ''am'', ''--abort''] cwd"

section \<open>Tracker client (lines 137-230)\<close>

definition pw_get_series :: "env \<Rightarrow> int \<Rightarrow> series io" where
  "pw_get_series env i =
     io_bind (requests_url (get_series env) (PW_BASE_URL @ ''/series/'' @ py_str i))
       (\<lambda>resp. io_return (body resp))"

definition pw_get_patch :: "env \<Rightarrow> int \<Rightarrow> patch io" where
  "pw_get_patch env i =
     io_bind (requests_url (get_patch env) (PW_BASE_URL @ ''/patches/'' @ py_str i))
       (\<lambda>resp. io_return (body resp))"

text \<open>
  The \<^verbatim>\<open>while True\<close> loop of \<^verbatim>\<open>pw_get_patches_by_state\<close>: it ends when a
  response has no \<^verbatim>\<open>next\<close> link or is not a 200, and runs forever on a tracker
  whose links never end; not returning is \<open>None\<close>.
\<close>

partial_function (option) read_pages ::
  "env \<Rightarrow> string \<Rightarrow> patch_item list \<Rightarrow> event list \<Rightarrow> (patch_item list io) option" where
  "read_pages env url acc es =
     (case requests_url (get_patches env) url of
        (es', Inl e) \<Rightarrow> Some (es @ es', Inl e)
      | (es', Inr resp) \<Rightarrow>
          (case links_next resp of
             None \<Rightarrow> Some (es @ es', Inr (acc @ body resp))
           | Some next_url \<Rightarrow> read_pages env next_url (acc @ body resp) (es @ es')))"

definition patches_url :: "string list \<Rightarrow> string" where
  "patches_url states =
     foldl (\<lambda>url state. url @ ''&state='' @ state)
       (PW_BASE_URL @ ''/patches/?project='' @ PW_PROJECT_ID @ ''&archived=0'') states"

definition pw_get_patches_by_state :: "env \<Rightarrow> string list \<Rightarrow> (patch_item list io) option" where
  "pw_get_patches_by_state env states = read_pages env (patches_url states) [] []"

text \<open>
  \<^verbatim>\<open>pw_submit_check\<close>, the same text in \<^verbatim>\<open>pw-to-pr.py\<close> (lines 191-230) and
  in \<^verbatim>\<open>update-check.py\<close> (lines 40-79). It returns \<open>None\<close> when the token is
  missing and the decoded response otherwise.
\<close>

definition pw_submit_check ::
  "env \<Rightarrow> int \<Rightarrow> int \<Rightarrow> string \<Rightarrow> string \<Rightarrow> string option \<Rightarrow> string option io" where
  "pw_submit_check env patch_id state ctx description target_url =
     (let url = PW_BASE_URL @ ''/patches/'' @ py_str patch_id @ ''/checks/'';
          logged = [Print (''Submit result(state='' @ py_str state @ '') to Patchwork/Check''),
                    Print (''URL: '' @ url)]
      in case environ env ''PATCHWORK_TOKEN'' of
           None \<Rightarrow>
             (logged @ [Print ''ERROR: Unable to find PATCHWORK_TOKEN in environment''], Inr None)
         | Some token \<Rightarrow>
             (let target = (case target_url of None \<Rightarrow> '''' | Some t \<Rightarrow> t);
                  headers = [(''Authorization'', ''Token '' @ token)];
                  cont = \<lparr>cc_user = 104215, cc_state = state, cc_target_url = target,
                          cc_context = ctx, cc_description = description\<rparr>
              in io_bind (logged @ [Print_Content cont], Inr ()) (\<lambda>_.
                 io_bind (requests_post env url headers cont) (\<lambda>req.
                 io_return (Some (body req))))))"

section \<open>Forge client (lines 233-265)\<close>

definition github_create_pr :: "env \<Rightarrow> string \<Rightarrow> string \<Rightarrow> string \<Rightarrow> string \<Rightarrow> unit io" where
  "github_create_pr env title text base head =
     ([Create_Pull title text base head],
      if create_pull_ok env title text base head then Inr () else Inl GithubException)"

definition github_close_pr :: "env \<Rightarrow> int \<Rightarrow> unit io" where
  "github_close_pr env pr_id =
     io_bind (case get_pull env pr_id of
                None \<Rightarrow> ([Get_Pull pr_id], Inl GithubException)
              | Some pr \<Rightarrow> ([Get_Pull pr_id], Inr pr)) (\<lambda>pr.
     let pr_head_ref = head_ref pr in
     io_bind (io_emit (Edit_Closed pr_id)) (\<lambda>_.
     io_bind (let r = ''heads/'' @ pr_head_ref in
              ([Get_Git_Ref r], if git_ref_exists env r then Inr r else Inl GithubException))
       (\<lambda>git_ref. io_emit (Delete_Ref git_ref))))"

text \<open>
  \<^verbatim>\<open>github_pr_exist\<close>: the pattern is \<^verbatim>\<open>'PW_SID:'\<close> followed by the decimal id,
  which has no metacharacter, searched without case anywhere in the title.
\<close>

fun github_pr_exist :: "pull list \<Rightarrow> int \<Rightarrow> bool" where
  "github_pr_exist [] i = False"
| "github_pr_exist (p # github_pulls) i =
     (if re_search_literal_icase (''PW_SID:'' @ py_str i) (pull_title p) then True
      else github_pr_exist github_pulls i)"

section \<open>Email (lines 268-331)\<close>

text \<open>
  When the connection cannot be made, the \<^verbatim>\<open>finally\<close> clause reads
  \<^verbatim>\<open>session\<close> before it was assigned; every later failure is caught and logged.
\<close>

definition email_sendmail ::
  "env \<Rightarrow> email_config \<Rightarrow> string \<Rightarrow> string list \<Rightarrow> message \<Rightarrow> unit io" where
  "email_sendmail env cfg from_addr to_addr msg =
     (case environ env ''EMAIL_TOKEN'' of
        None \<Rightarrow> io_return ()
      | Some token \<Rightarrow>
          (let opened = [Smtp_Connect (server cfg) (port cfg)]
                        @ (if starttls cfg then [Smtp_Starttls] else [])
                        @ [Smtp_Login from_addr token]
           in case smtp env of
                Smtp_Connect_Fails \<Rightarrow> ([Smtp_Connect (server cfg) (port cfg)], Inl UnboundLocalError)
              | Smtp_Login_Fails \<Rightarrow> (opened @ [Smtp_Quit], Inr ())
              | Smtp_Sendmail_Fails \<Rightarrow>
                  (opened @ [Smtp_Sendmail from_addr to_addr msg, Smtp_Quit], Inr ())
              | Smtp_Ok \<Rightarrow>
                  (opened @ [Smtp_Sendmail from_addr to_addr msg, Smtp_Quit], Inr ())))"

definition email_compose :: "env \<Rightarrow> email_config \<Rightarrow> series \<Rightarrow> string \<Rightarrow> unit io" where
  "email_compose env cfg series text =
     (if \<not> enable cfg then io_return ()
      else case series_name series of
             None \<Rightarrow> io_raise TypeError
           | Some name \<Rightarrow>
               (let from_addr = user cfg;
                    to_addr = (if only_maintainers cfg then maintainers cfg
                               else [default_to cfg, submitter_email series])
                in case patches series of
                     [] \<Rightarrow> io_raise IndexError
                   | patch_1 # _ \<Rightarrow>
                       email_sendmail env cfg from_addr to_addr
                         \<lparr>msg_subject = ''RE: '' @ name, msg_reply_to = default_to cfg,
                          msg_from = from_addr, msg_to = py_join '', '' to_addr,
                          msg_in_reply_to = msgid patch_1, msg_references = msgid patch_1,
                          msg_body = text\<rparr>))"

section \<open>Series discovery (lines 334-378)\<close>

text \<open>
  The dictionary \<^verbatim>\<open>series_dict\<close> keeps its keys in insertion order: it is a list
  of pairs, a new key going to the end.
\<close>

fun add_series :: "env \<Rightarrow> int list \<Rightarrow> (int \<times> series) list \<Rightarrow> (int \<times> series) list io" where
  "add_series env [] series_dict = ([], Inr series_dict)"
| "add_series env (i # ids) series_dict =
     (if i \<in> set (map fst series_dict) then add_series env ids series_dict
      else (case pw_get_series env i of
              (es, Inl e) \<Rightarrow> (es, Inl e)
            | (es, Inr s) \<Rightarrow>
                (case add_series env ids (series_dict @ [(i, s)]) of
                   (es', r) \<Rightarrow> (es @ es', r))))"

fun scan_patches ::
  "env \<Rightarrow> patch_item list \<Rightarrow> (int \<times> series) list \<Rightarrow> (int \<times> series) list io" where
  "scan_patches env [] series_dict = ([], Inr series_dict)"
| "scan_patches env (p # ps) series_dict =
     (case item_series p of
        None \<Rightarrow> scan_patches env ps series_dict
      | Some ids \<Rightarrow>
          (case add_series env ids series_dict of
             (es, Inl e) \<Rightarrow> (es, Inl e)
           | (es, Inr d) \<Rightarrow>
               (case scan_patches env ps d of (es', r) \<Rightarrow> (es @ es', r))))"

definition get_new_series :: "env \<Rightarrow> string list \<Rightarrow> ((int \<times> series) list io) option" where
  "get_new_series env states =
     (case pw_get_patches_by_state env states of
        None \<Rightarrow> None
      | Some fetched \<Rightarrow>
          Some (io_bind fetched (\<lambda>ps.
                  if length ps = 0 then io_return [] else scan_patches env ps [])))"

definition series_checked :: "env \<Rightarrow> series \<Rightarrow> bool io" where
  "series_checked env series =
     (case patches series of
        [] \<Rightarrow> io_raise IndexError
      | p # _ \<Rightarrow>
          io_bind (pw_get_patch env (pid p)) (\<lambda>patch_1.
            if check patch_1 = ''pending'' then io_return False else io_return True))"

section \<open>Series directory, pull-request title and series tag (lines 412-443)\<close>

definition create_series_dir :: "env \<Rightarrow> int \<Rightarrow> string \<Rightarrow> string io" where
  "create_series_dir env i root_dir =
     (let series_path = path_join root_dir (py_str i) in
      (if \<not> path_exists env series_path then [Makedirs series_path] else [], Inr series_path))"

definition create_pr :: "env \<Rightarrow> series \<Rightarrow> string \<Rightarrow> string \<Rightarrow> unit io" where
  "create_pr env series base head =
     (let title = ''['' @ PR_TITLE_PREFIX @ '':'' @ py_str (series_id series) @ ''] ''
                  @ (case series_name series of None \<Rightarrow> ''None'' | Some name \<Rightarrow> name)
      in case patches series of
           [] \<Rightarrow> io_raise IndexError
         | p # _ \<Rightarrow>
             io_bind (pw_get_patch env (pid p)) (\<lambda>patch_1.
               github_create_pr env title (content patch_1) base head))"

text \<open>
  \<^verbatim>\<open>re.search(r'^\[PW_SID:([0-9]+)\]', pr_title)\<close>: the match, given by its
  group 1, or \<open>None\<close>. The pattern matches when the title begins with
  \<^verbatim>\<open>[PW_SID:\<close>, one digit or more follow, and the character after the digits
  is \<^verbatim>\<open>]\<close>.
\<close>

definition re_search_sid :: "string \<Rightarrow> string option" where
  "re_search_sid pr_title =
     (if startswith pr_title ''[PW_SID:'' then
        (let rest = drop 8 pr_title; sid = takeWhile is_digit rest in
         if sid \<noteq> [] \<and> startswith (drop (length sid) rest) '']'' then Some sid else None)
      else None)"

text \<open>
  \<^verbatim>\<open>get_pw_sid\<close>: without a match, \<^verbatim>\<open>.group(1)\<close> on \<^verbatim>\<open>None\<close> raises
  AttributeError, which is caught: the function returns \<open>0\<close>.
\<close>

definition get_pw_sid :: "string \<Rightarrow> int" where
  "get_pw_sid pr_title =
     (case re_search_sid pr_title of
        None \<Rightarrow> 0
      | Some sid \<Rightarrow> py_int sid)"

section \<open>File-list extraction (\<^verbatim>\<open>patch_get_file_list\<close>, lines 446-476)\<close>

text \<open>
  The loop over the lines of the diff. \<^verbatim>\<open>re.search(r'^\-\-\- ', line)\<close> has no
  MULTILINE flag and the line holds no newline, so it is a prefix test.
  \<^verbatim>\<open>if line.find('dev/null'):\<close> tests the integer that \<^verbatim>\<open>find\<close> returns for
  truth: every value but \<open>0\<close> is true, \<open>-1\<close> (not found) included.
  \<^verbatim>\<open>line[line.find('/')+1:]\<close> drops the characters up to the first slash.
  The index counts bytes here and characters in Python; the program only tests it
  against zero and cuts the line after it, which comes to the same.
\<close>

fun file_list_loop :: "string list \<Rightarrow> string list \<Rightarrow> string list" where
  "file_list_loop [] file_list = file_list"
| "file_list_loop (line # lines) file_list =
     (if startswith line ''--- '' then
        (if py_find line ''dev/null'' \<noteq> 0 then file_list_loop lines file_list
         else file_list_loop lines (file_list @ [drop (nat (py_find line ''/'' + 1)) line]))
      else file_list_loop lines file_list)"

definition patch_get_file_list :: "string option \<Rightarrow> string list" where
  "patch_get_file_list patch =
     (case patch of
        None \<Rightarrow> []
      | Some p \<Rightarrow> file_list_loop (py_split newline p) [])"

section \<open>Relevance filter (lines 479-539)\<close>

fun collect_files :: "env \<Rightarrow> patch_ref list \<Rightarrow> string list \<Rightarrow> string list io" where
  "collect_files env [] file_list = ([], Inr file_list)"
| "collect_files env (p # ps) file_list =
     (case pw_get_patch env (pid p) of
        (es, Inl e) \<Rightarrow> (es, Inl e)
      | (es, Inr full_patch) \<Rightarrow>
          (case collect_files env ps (file_list @ patch_get_file_list (diff full_patch)) of
             (es', r) \<Rightarrow> (es @ es', r)))"

definition series_get_file_list :: "env \<Rightarrow> series \<Rightarrow> string list io" where
  "series_get_file_list env series = collect_files env (patches series) []"

text \<open>
  The loops over the exclude and the include strings: the first pattern found in the
  name ends the loop. \<^verbatim>\<open>re.search\<close> on a name that is \<^verbatim>\<open>None\<close> raises
  TypeError.
\<close>

fun search_any :: "(string \<Rightarrow> string \<Rightarrow> bool) \<Rightarrow> string list \<Rightarrow> string option \<Rightarrow> error + bool" where
  "search_any search [] name = Inr False"
| "search_any search (str # strs) name =
     (case name of
        None \<Rightarrow> Inl TypeError
      | Some n \<Rightarrow> if search str n then Inr True else search_any search strs name)"

fun files_exist :: "env \<Rightarrow> string \<Rightarrow> string list \<Rightarrow> bool" where
  "files_exist env dir [] = True"
| "files_exist env dir (filename # file_list) =
     (if \<not> path_exists env (path_join dir filename) then False
      else files_exist env dir file_list)"

definition filter_repo_type :: "env \<Rightarrow> repo_detail \<Rightarrow> series \<Rightarrow> string \<Rightarrow> bool io" where
  "filter_repo_type env detail series dir =
     (case search_any (re_search env) (exclude_strs detail) (series_name series) of
        Inl e \<Rightarrow> io_raise e
      | Inr True \<Rightarrow> io_return False
      | Inr False \<Rightarrow>
          (case search_any (re_search env) (include_strs detail) (series_name series) of
             Inl e \<Rightarrow> io_raise e
           | Inr True \<Rightarrow> io_return True
           | Inr False \<Rightarrow>
               io_bind (series_get_file_list env series) (\<lambda>file_list.
                 if length file_list = 0 then io_return False
                 else io_return (files_exist env dir file_list))))"

section \<open>The run (\<^verbatim>\<open>main\<close>, lines 598-754)\<close>

text \<open>
  One turn of the loop over the patches of a series (lines 670-708): the result is
  \<open>None\<close> when the patch applied and the loop goes on, and the text of the email
  when it did not and the loop breaks.
\<close>

definition submit_unless_disabled :: "env \<Rightarrow> args \<Rightarrow> int \<Rightarrow> int \<Rightarrow> string \<Rightarrow> unit io" where
  "submit_unless_disabled env a patch_id state description =
     (if dry_run a then io_return ()
      else if no_update_check a then io_return ()
      else io_bind (pw_submit_check env patch_id state ''pre-ci_am'' description None)
             (\<lambda>_. io_return ()))"

definition apply_patch :: "env \<Rightarrow> args \<Rightarrow> string \<Rightarrow> patch_ref \<Rightarrow> string option io" where
  "apply_patch env a series_dir p =
     io_bind (requests_url (get_mbox env) (mbox p)) (\<lambda>resp.
     let patch_path = path_join series_dir (py_str (pid p) @ ''.patch'') in
     io_bind (io_emit (Write_File patch_path (body resp))) (\<lambda>_.
     io_bind (git_am env patch_path (src_dir a)) (\<lambda>(ret, stdout, stderr).
       if ret \<noteq> 0 then
         io_bind (submit_unless_disabled env a (pid p) 3 stderr) (\<lambda>_.
         io_bind (git_am_abort env (src_dir a)) (\<lambda>_.
         io_return (Some (EMAIL_MESSAGE stderr))))
       else
         io_bind (submit_unless_disabled env a (pid p) 1 ''Success'') (\<lambda>_.
         io_return None))))"

text \<open>The loop itself: the verdict and the content when it ends.\<close>

fun apply_patches :: "env \<Rightarrow> args \<Rightarrow> string \<Rightarrow> patch_ref list \<Rightarrow> (bool \<times> string) io" where
  "apply_patches env a series_dir [] = ([], Inr (True, ''''))"
| "apply_patches env a series_dir (p # ps) =
     (case apply_patch env a series_dir p of
        (es, Inl e) \<Rightarrow> (es, Inl e)
      | (es, Inr (Some text)) \<Rightarrow> (es, Inr (False, text))
      | (es, Inr None) \<Rightarrow>
          (case apply_patches env a series_dir ps of (es', r) \<Rightarrow> (es @ es', r)))"

text \<open>Lines 667-732: the patches are applied, then the email or the pull request.\<close>

definition apply_series :: "env \<Rightarrow> args \<Rightarrow> config \<Rightarrow> int \<Rightarrow> series \<Rightarrow> string \<Rightarrow> unit io" where
  "apply_series env a cfg i series series_dir =
     io_bind (apply_patches env a series_dir (patches series)) (\<lambda>(verdict, text).
       if \<not> verdict then
         (if dry_run a then io_return () else email_compose env (email cfg) series text)
       else if dry_run a then io_return ()
       else io_bind (git_push env ''origin'' (py_str i) (src_dir a) False) (\<lambda>pushed.
              if \<not> pushed then io_return ()
              else create_pr env series (branch a) (py_str i)))"

text \<open>
  Lines 630-633: \<^verbatim>\<open>not args.ignore_check and series_checked(series)\<close>; the
  patch is not fetched when the override is set.
\<close>

definition already_checked :: "env \<Rightarrow> args \<Rightarrow> series \<Rightarrow> bool io" where
  "already_checked env a series =
     (if \<not> ignore_check a then series_checked env series else io_return False)"

text \<open>Lines 638-641: a series without a name takes the name of its first patch.\<close>

definition normalize_name :: "series \<Rightarrow> series io" where
  "normalize_name series =
     (case series_name series of
        Some _ \<Rightarrow> io_return series
      | None \<Rightarrow>
          (case patches series of
             [] \<Rightarrow> io_raise IndexError
           | patch_1 # _ \<Rightarrow> io_return (series\<lparr>series_name := Some (pname patch_1)\<rparr>)))"

text \<open>
  The body of the loop over the series (lines 626-732), in two parts: what follows the
  "already checked" test (lines 635-732), and the test in front of it.
\<close>

definition handle_series ::
  "env \<Rightarrow> args \<Rightarrow> config \<Rightarrow> pull list \<Rightarrow> string \<Rightarrow> int \<Rightarrow> series \<Rightarrow> unit io" where
  "handle_series env a cfg github_pulls temp_root_dir i series0 =
     io_bind (normalize_name series0) (\<lambda>series.
     io_bind (case repo_details cfg (key_str a) of
                None \<Rightarrow> io_raise (KeyError (key_str a))
              | Some detail \<Rightarrow> filter_repo_type env detail series (src_dir a)) (\<lambda>relevant.
     if \<not> relevant then io_return () else
     if github_pr_exist github_pulls i then io_return () else
     io_bind (create_series_dir env i temp_root_dir) (\<lambda>series_dir.
     io_bind (git_checkout env (branch a) (src_dir a) False) (\<lambda>on_base.
     if \<not> on_base then io_return () else
     io_bind (git_checkout env (py_str i) (src_dir a) True) (\<lambda>on_branch.
     if \<not> on_branch then io_return () else
     apply_series env a cfg i series series_dir)))))"

definition process_series ::
  "env \<Rightarrow> args \<Rightarrow> config \<Rightarrow> pull list \<Rightarrow> string \<Rightarrow> int \<times> series \<Rightarrow> unit io" where
  "process_series env a cfg github_pulls temp_root_dir entry =
     (case entry of (i, series0) \<Rightarrow>
        io_bind (already_checked env a series0) (\<lambda>checked.
          if checked then io_return ()
          else handle_series env a cfg github_pulls temp_root_dir i series0))"

text \<open>The body of the closing loop (lines 738-752), and the loop.\<close>

definition clean_up_pr :: "env \<Rightarrow> args \<Rightarrow> (int \<times> series) list \<Rightarrow> pull \<Rightarrow> unit io" where
  "clean_up_pr env a new_series pr =
     (let pw_sid = get_pw_sid (pull_title pr) in
      if pw_sid \<in> set (map fst new_series) then io_return ()
      else if dry_run a then io_return ()
      else github_close_pr env (pull_number pr))"

definition clean_up :: "env \<Rightarrow> args \<Rightarrow> (int \<times> series) list \<Rightarrow> pull list \<Rightarrow> unit io" where
  "clean_up env a new_series github_pulls = io_foreach (clean_up_pr env a new_series) github_pulls"

definition series_loop ::
  "env \<Rightarrow> args \<Rightarrow> config \<Rightarrow> pull list \<Rightarrow> (int \<times> series) list \<Rightarrow> unit io" where
  "series_loop env a cfg github_pulls new_series =
     io_foreach (process_series env a cfg github_pulls (temp_root env)) new_series"

text \<open>
  \<^verbatim>\<open>main\<close>: \<^verbatim>\<open>sys.exit(n)\<close> is the exception \<open>SystemExit n\<close>; a run that never
  leaves the pagination loop is \<open>None\<close>.
\<close>

definition main :: "env \<Rightarrow> args \<Rightarrow> (unit io) option" where
  "main env a =
     (if key_str a \<noteq> ''kernel'' \<and> key_str a \<noteq> ''user'' then Some (io_raise (SystemExit 1))
      else case load_config env (config_file a) of
             None \<Rightarrow> Some (io_raise (SystemExit 2))
           | Some cfg \<Rightarrow>
               (case environ env ''GITHUB_TOKEN'' of
                  None \<Rightarrow> Some (io_raise (KeyError ''GITHUB_TOKEN''))
                | Some _ \<Rightarrow>
                    (let github_pulls = open_pulls env (repo a) in
                     case get_new_series env (patch_state a) of
                       None \<Rightarrow> None
                     | Some discovered \<Rightarrow>
                         Some (io_bind discovered (\<lambda>new_series.
                                 if length new_series = 0 then io_return ()
                                 else io_bind (series_loop env a cfg github_pulls new_series)
                                        (\<lambda>_. clean_up env a new_series github_pulls))))))"

section \<open>Events and answers named in the statements\<close>

text \<open>
  Names for what the statements about the loop over the patches speak of: the
  \<^verbatim>\<open>git am\<close> call for a patch and the answer of git to it, the
  \<^verbatim>\<open>git am --abort\<close> call, the POST of a check for a patch and whether the
  tracker accepts it (status 201), and the events of one turn of the loop.
\<close>

definition am_call :: "args \<Rightarrow> string \<Rightarrow> patch_ref \<Rightarrow> event" where
  "am_call a series_dir p =
     Cmd_Run [''git'', ''am'', path_join series_dir (py_str (pid p) @ ''.patch'')] (src_dir a)"

definition am_result :: "env \<Rightarrow> args \<Rightarrow> string \<Rightarrow> patch_ref \<Rightarrow> int \<times> string \<times> string" where
  "am_result env a series_dir p =
     run_cmd env [''git'', ''am'', path_join series_dir (py_str (pid p) @ ''.patch'')] (src_dir a)"

definition abort_call :: "args \<Rightarrow> event" where
  "abort_call a = Cmd_Run [''git'', ''am'', ''--abort''] (src_dir a)"

definition check_content_of :: "int \<Rightarrow> string \<Rightarrow> check_content" where
  "check_content_of state description =
     \<lparr>cc_user = 104215, cc_state = state, cc_target_url = [], cc_context = ''pre-ci_am'',
      cc_description = description\<rparr>"

definition check_post :: "string \<Rightarrow> patch_ref \<Rightarrow> int \<Rightarrow> string \<Rightarrow> event" where
  "check_post token p state description =
     Http_Post (PW_BASE_URL @ ''/patches/'' @ py_str (pid p) @ ''/checks/'')
       [(''Authorization'', ''Token '' @ token)] (check_content_of state description)"

definition check_accepted :: "env \<Rightarrow> string \<Rightarrow> patch_ref \<Rightarrow> int \<Rightarrow> string \<Rightarrow> bool" where
  "check_accepted env token p state description =
     (status_code (post_check env (PW_BASE_URL @ ''/patches/'' @ py_str (pid p) @ ''/checks/'')
        [(''Authorization'', ''Token '' @ token)] (check_content_of state description)) = 201)"

fun is_check_post :: "event \<Rightarrow> bool" where
  "is_check_post (Http_Post url headers cont) = True"
| "is_check_post ev = False"

fun is_fail_check :: "event \<Rightarrow> bool" where
  "is_fail_check (Http_Post url headers cont) = (cc_state cont = 3)"
| "is_fail_check ev = False"

fun is_cmd :: "event \<Rightarrow> bool" where
  "is_cmd (Cmd_Run cmd cwd) = True"
| "is_cmd ev = False"

fun is_create_pull :: "event \<Rightarrow> bool" where
  "is_create_pull (Create_Pull title text base head) = True"
| "is_create_pull ev = False"

fun is_sendmail :: "event \<Rightarrow> bool" where
  "is_sendmail (Smtp_Sendmail from_addr to_addr msg) = True"
| "is_sendmail ev = False"

definition submit_trace :: "string \<Rightarrow> patch_ref \<Rightarrow> int \<Rightarrow> string \<Rightarrow> event list" where
  "submit_trace token p state description =
     [Print (''Submit result(state='' @ py_str state @ '') to Patchwork/Check''),
      Print (''URL: '' @ PW_BASE_URL @ ''/patches/'' @ py_str (pid p) @ ''/checks/''),
      Print_Content (check_content_of state description),
      check_post token p state description]"

definition fetch_trace :: "env \<Rightarrow> args \<Rightarrow> string \<Rightarrow> patch_ref \<Rightarrow> event list" where
  "fetch_trace env a series_dir p =
     [Http_Get (mbox p),
      Write_File (path_join series_dir (py_str (pid p) @ ''.patch'')) (body (get_mbox env (mbox p))),
      am_call a series_dir p]"

definition am_stderr :: "env \<Rightarrow> args \<Rightarrow> string \<Rightarrow> patch_ref \<Rightarrow> string" where
  "am_stderr env a series_dir p = snd (snd (am_result env a series_dir p))"

text \<open>
  The titles of the pull requests that a trace creates, in order, and the shape of a
  title that \<^verbatim>\<open>create_pr\<close> gives to the pull request of series \<open>i\<close>.
\<close>

fun created_titles :: "event list \<Rightarrow> string list" where
  "created_titles [] = []"
| "created_titles (Create_Pull title text base head # es) = title # created_titles es"
| "created_titles (ev # es) = created_titles es"

definition tagged_title :: "int \<Rightarrow> string \<Rightarrow> bool" where
  "tagged_title i title = (\<exists>name. title = ''[PW_SID:'' @ py_str i @ ''] '' @ name)"

section \<open>A small world for the worked examples\<close>

text \<open>
  Two series on the tracker: series 1 with the patches 11 and 12, series 2 with the
  patches 21 and 22. Every patch applies but patch 22. The list of patches comes in
  two pages. Three pull requests with a series tag are open, and one without.
\<close>

definition demo_patch :: "int \<Rightarrow> string \<Rightarrow> patch_ref" where
  "demo_patch n label =
     \<lparr>pid = n, pname = label, mbox = ''mbox/'' @ py_str n, msgid = ''<m'' @ py_str (n mod 10) @ ''>''\<rparr>"

definition demo_series :: "int \<Rightarrow> series" where
  "demo_series i =
     \<lparr>series_id = i, series_name = Some (''Bluetooth: series '' @ py_str i),
      patches = [demo_patch (10 * i + 1) ''first'', demo_patch (10 * i + 2) ''second''],
      submitter_email = ''dev@example.org''\<rparr>"

definition demo_config :: config where
  "demo_config =
     \<lparr>repo_details = (\<lambda>k. if k = ''kernel'' then
                             Some \<lparr>include_strs = [''bluetooth''], exclude_strs = [''bluez'']\<rparr>
                           else None),
      email = \<lparr>enable = True, server = ''smtp.example.org'', port = 587, starttls = True,
               user = ''bot@example.org'', default_to = ''list@example.org'',
               only_maintainers = False, maintainers = []\<rparr>\<rparr>"

definition demo_args :: args where
  "demo_args =
     \<lparr>config_file = ''./config.json'', patch_state = [''1'', ''2''], repo = ''bluez/bluez'',
      branch = ''workflow'', key_str = ''kernel'', src_dir = ''/src'', ignore_check = False,
      no_update_check = False, dry_run = False\<rparr>"

definition demo_pulls :: "pull list" where
  "demo_pulls =
     [\<lparr>pull_number = 101, pull_title = ''[PW_SID:1] first'', head_ref = ''1''\<rparr>,
      \<lparr>pull_number = 102, pull_title = ''[PW_SID:2] second'', head_ref = ''2''\<rparr>,
      \<lparr>pull_number = 103, pull_title = ''[PW_SID:3] third'', head_ref = ''3''\<rparr>]"

definition demo_foreign_pull :: pull where
  "demo_foreign_pull =
     \<lparr>pull_number = 104, pull_title = ''Fix typo in README'', head_ref = ''typo''\<rparr>"

definition demo_env :: env where
  "demo_env =
     \<lparr>get_series = (\<lambda>url.
        \<lparr>status_code = 200,
         body = demo_series (if url = ''https://patchwork.kernel.org/api/series/1'' then 1 else 2),
         links_next = None\<rparr>),
      get_patch = (\<lambda>url.
        \<lparr>status_code = 200,
         body = \<lparr>check = ''pending'', content = ''commit message'',
                 diff = Some ''--- a/net/bluetooth/hci_core.c''\<rparr>,
         links_next = None\<rparr>),
      get_patches = (\<lambda>url.
        if url = ''https://patchwork.kernel.org/api/patches/?project=395&archived=0&state=1&state=2''
        then \<lparr>status_code = 200,
              body = [\<lparr>item_id = 11, item_series = Some [1]\<rparr>,
                      \<lparr>item_id = 12, item_series = Some [1]\<rparr>],
              links_next = Some ''page2''\<rparr>
        else \<lparr>status_code = 200,
              body = [\<lparr>item_id = 21, item_series = Some [2]\<rparr>,
                      \<lparr>item_id = 22, item_series = Some [2]\<rparr>],
              links_next = None\<rparr>),
      get_mbox = (\<lambda>url. \<lparr>status_code = 200, body = ''From: dev'', links_next = None\<rparr>),
      post_check = (\<lambda>url headers cont. \<lparr>status_code = 201, body = ''{}'', links_next = None\<rparr>),
      environ = (\<lambda>k. Some ''secret''),
      run_cmd = (\<lambda>cmd cwd. if cmd = [''git'', ''am'', ''/tmp/pw/2/22.patch'']
                             then (128, '''', ''error: patch failed'') else (0, ''ok'', '''')),
      path_exists = (\<lambda>p. False),
      temp_root = ''/tmp/pw'',
      load_config = (\<lambda>p. Some demo_config),
      re_search = re_search_literal_icase,
      open_pulls = (\<lambda>r. demo_pulls),
      create_pull_ok = (\<lambda>title text base head. True),
      get_pull = (\<lambda>n. find (\<lambda>p. pull_number p = n) (demo_pulls @ [demo_foreign_pull])),
      git_ref_exists = (\<lambda>r. True),
      smtp = Smtp_Ok\<rparr>"

text \<open>
  The tracker of the small world, where patch 21 has the check state \<open>c1\<close> and
  every other patch the state \<open>c2\<close>.
\<close>

definition demo_env_checks :: "string \<Rightarrow> string \<Rightarrow> env" where
  "demo_env_checks c1 c2 =
     demo_env\<lparr>get_patch := (\<lambda>url.
       \<lparr>status_code = 200,
        body = \<lparr>check = (if url = ''https://patchwork.kernel.org/api/patches/21'' then c1 else c2),
                content = ''commit message'', diff = None\<rparr>,
        links_next = None\<rparr>)\<rparr>"

definition demo_detail :: repo_detail where
  "demo_detail = \<lparr>include_strs = [''bluetooth''], exclude_strs = [''bluez'']\<rparr>"

definition demo_named :: "string \<Rightarrow> series" where
  "demo_named name = (demo_series 2)\<lparr>series_name := Some name\<rparr>"


text \<open>
  A tracker that serves a list of patches in pages: each page is a 200 with its
  patches, each page but the last links to the URL of the next one, and the last has
  no \<^verbatim>\<open>next\<close> link.
\<close>

fun linked :: "env \<Rightarrow> (string \<times> patch_item list) list \<Rightarrow> bool" where
  "linked env [] = True"
| "linked env [(u, ps)] =
     (get_patches env u = \<lparr>status_code = 200, body = ps, links_next = None\<rparr>)"
| "linked env ((u, ps) # (u', ps') # rest) =
     (get_patches env u = \<lparr>status_code = 200, body = ps, links_next = Some u'\<rparr>
      \<and> linked env ((u', ps') # rest))"

definition demo_pages :: "(string \<times> patch_item list) list" where
  "demo_pages =
     [(''https://patchwork.kernel.org/api/patches/?project=395&archived=0&state=1&state=2'',
       [\<lparr>item_id = 11, item_series = Some [1]\<rparr>, \<lparr>item_id = 12, item_series = Some [1]\<rparr>]),
      (''page2'',
       [\<lparr>item_id = 21, item_series = Some [2]\<rparr>, \<lparr>item_id = 22, item_series = Some [2]\<rparr>])]"

text \<open>The pull request that a first run creates for series 1, as the forge lists it.\<close>

definition demo_later_pulls :: "pull list" where
  "demo_later_pulls =
     [\<lparr>pull_number = 105, pull_title = ''[PW_SID:1] Bluetooth: series 1'', head_ref = ''1''\<rparr>]"

text \<open>
  A forge with one open pull request, left from a series 12 that the tracker no longer
  lists, and a tracker that lists the patches of series 1 only; the trace of a run
  that finds no open pull request.
\<close>

definition demo_guard_pull :: pull where
  "demo_guard_pull =
     \<lparr>pull_number = 106, pull_title = ''[PW_SID:12] old series'', head_ref = ''12''\<rparr>"

definition demo_env_open :: "pull list \<Rightarrow> env" where
  "demo_env_open pulls =
     demo_env\<lparr>get_patches := (\<lambda>url.
                 \<lparr>status_code = 200,
                  body = [\<lparr>item_id = 11, item_series = Some [1]\<rparr>,
                          \<lparr>item_id = 12, item_series = Some [1]\<rparr>],
                  links_next = None\<rparr>),
               open_pulls := (\<lambda>r. pulls),
               get_pull := (\<lambda>n. if n = 106 then Some demo_guard_pull else None)\<rparr>"

definition demo_second_run :: "event list" where
  "demo_second_run =
     [Http_Get ''https://patchwork.kernel.org/api/patches/?project=395&archived=0&state=1&state=2'',
      Http_Get ''https://patchwork.kernel.org/api/series/1'',
      Http_Get ''https://patchwork.kernel.org/api/patches/11'',
      Makedirs ''/tmp/pw/1'',
      Cmd_Run [''git'', ''checkout'', ''workflow''] ''/src'',
      Cmd_Run [''git'', ''checkout'', ''-b'', ''1''] ''/src'']
     @ fetch_trace demo_env demo_args ''/tmp/pw/1'' (demo_patch 11 ''first'')
     @ submit_trace ''secret'' (demo_patch 11 ''first'') 1 ''Success''
     @ fetch_trace demo_env demo_args ''/tmp/pw/1'' (demo_patch 12 ''second'')
     @ submit_trace ''secret'' (demo_patch 12 ''second'') 1 ''Success''
     @ [Cmd_Run [''git'', ''push'', ''origin'', ''1''] ''/src'',
        Http_Get ''https://patchwork.kernel.org/api/patches/11'',
        Create_Pull ''[PW_SID:1] Bluetooth: series 1'' ''commit message'' ''workflow'' ''1'']"

section \<open>Laws of the effect monad\<close>

declare str_nat.simps [simp del]

lemma io_bind_Inl [simp]: "io_bind (es, Inl e) f = (es, Inl e)"
  by (simp add: io_bind_def)

lemma io_bind_Inr [simp]: "io_bind (es, Inr x) f = (es @ fst (f x), snd (f x))"
  by (simp add: io_bind_def split: prod.split)

lemma io_bind_return [simp]: "io_bind (io_return x) f = f x"
  by (simp add: io_return_def)

lemma io_bind_raise [simp]: "io_bind (io_raise e) f = io_raise e"
  by (simp add: io_raise_def)

lemma fst_io_return [simp]: "fst (io_return x) = []"
  by (simp add: io_return_def)

lemma snd_io_return [simp]: "snd (io_return x) = Inr x"
  by (simp add: io_return_def)

lemma io_foreach_all_ok:
  "\<forall>x \<in> set xs. snd (f x) = Inr () \<Longrightarrow>
   io_foreach f xs = (concat (map (\<lambda>x. fst (f x)) xs), Inr ())"
  by (induction xs) (auto split: prod.splits sum.splits)

lemma github_close_pr_ok:
  "get_pull env n = Some p \<Longrightarrow> git_ref_exists env (''heads/'' @ head_ref p) \<Longrightarrow>
   github_close_pr env n =
     ([Get_Pull n, Edit_Closed n, Get_Git_Ref (''heads/'' @ head_ref p),
       Delete_Ref (''heads/'' @ head_ref p)], Inr ())"
  by (simp add: github_close_pr_def io_emit_def Let_def)

lemma startswith_split: "startswith s p \<Longrightarrow> s = p @ drop (length p) s"
  unfolding startswith_def by (metis append_take_drop_id)

section \<open>Properties of file-list extraction\<close>

lemma py_find_zero_startswith: "py_find s sub = 0 \<Longrightarrow> startswith s sub"
  by (cases s) (auto simp: startswith_def Let_def split: if_splits)

lemma marker_line_find_nonzero:
  assumes "startswith line ''--- ''"
  shows "py_find line ''dev/null'' \<noteq> 0"
proof
  assume "py_find line ''dev/null'' = 0"
  then have "startswith line ''dev/null''" by (rule py_find_zero_startswith)
  with assms show False
    by (cases line) (auto simp: startswith_def)
qed

lemma file_list_loop_keeps: "file_list_loop lines file_list = file_list"
  by (induction lines arbitrary: file_list) (auto simp: marker_line_find_nonzero)

lemma patch_get_file_list_empty: "patch_get_file_list patch = []"
  by (cases patch) (simp_all add: patch_get_file_list_def file_list_loop_keeps)

text \<open>
  C1 (the code departs from the claim). The claim: the derived file list holds the
  "before" path of every line that begins with \<^verbatim>\<open>--- \<close>, \<^verbatim>\<open>/dev/null\<close> lines
  apart, so that a diff with the line \<^verbatim>\<open>--- a/foo/bar.c\<close> contributes
  \<^verbatim>\<open>foo/bar.c\<close>. The code at that diff returns the empty list: on a marker line
  \<^verbatim>\<open>find('dev/null')\<close> is never \<open>0\<close>, so the line is always skipped.
\<close>

theorem patch_get_file_list_foo_bar:
  "patch_get_file_list (Some (''--- a/foo/bar.c'' @ [newline] @ ''+++ b/foo/bar.c'')) = []
   \<and> py_find ''--- a/foo/bar.c'' ''dev/null'' = - 1
   \<and> drop (nat (py_find ''--- a/foo/bar.c'' ''/'' + 1)) ''--- a/foo/bar.c'' = ''foo/bar.c''"
  by (simp add: patch_get_file_list_def newline_def startswith_def)

lemma pw_get_patch_ok:
  "status_code (get_patch env (PW_BASE_URL @ ''/patches/'' @ py_str i)) = 200 \<Longrightarrow>
   pw_get_patch env i =
     ([Http_Get (PW_BASE_URL @ ''/patches/'' @ py_str i)],
      Inr (body (get_patch env (PW_BASE_URL @ ''/patches/'' @ py_str i))))"
  by (simp add: pw_get_patch_def requests_url_def Let_def io_return_def)

section \<open>Values in the small world\<close>

lemma py_str_demo:
  "py_str 1 = ''1''" "py_str 2 = ''2''" "py_str 3 = ''3''" "py_str 11 = ''11''" "py_str 12 = ''12''"
  "py_str 21 = ''21''" "py_str 22 = ''22''"
  by (simp_all add: py_str_def str_nat.simps digit_char_def)

lemma demo_series_2:
  "demo_series 2 =
     \<lparr>series_id = 2, series_name = Some ''Bluetooth: series 2'',
      patches = [\<lparr>pid = 21, pname = ''first'', mbox = ''mbox/21'', msgid = ''<m1>''\<rparr>,
                 \<lparr>pid = 22, pname = ''second'', mbox = ''mbox/22'', msgid = ''<m2>''\<rparr>],
      submitter_email = ''dev@example.org''\<rparr>"
  by (simp add: demo_series_def demo_patch_def py_str_demo)

lemma demo_env_checks_get_patch:
  "get_patch (demo_env_checks c1 c2) url =
       \<lparr>status_code = 200,
        body = \<lparr>check = (if url = ''https://patchwork.kernel.org/api/patches/21'' then c1 else c2),
                content = ''commit message'', diff = None\<rparr>,
        links_next = None\<rparr>"
  by (simp add: demo_env_checks_def)

lemma demo_env_fields:
  "re_search demo_env = re_search_literal_icase"
  "get_patch demo_env url =
     \<lparr>status_code = 200,
      body = \<lparr>check = ''pending'', content = ''commit message'',
              diff = Some ''--- a/net/bluetooth/hci_core.c''\<rparr>,
      links_next = None\<rparr>"
  "get_mbox demo_env url = \<lparr>status_code = 200, body = ''From: dev'', links_next = None\<rparr>"
  "post_check demo_env url headers cont = \<lparr>status_code = 201, body = ''{}'', links_next = None\<rparr>"
  "environ demo_env k = Some ''secret''"
  "run_cmd demo_env cmd cwd =
     (if cmd = [''git'', ''am'', ''/tmp/pw/2/22.patch'']
      then (128, [], ''error: patch failed'') else (0, ''ok'', []))"
  "path_exists demo_env p = False"
  "temp_root demo_env = ''/tmp/pw''"
  "create_pull_ok demo_env title text base head = True"
  "git_ref_exists demo_env r = True"
  "smtp demo_env = Smtp_Ok"
  by (simp_all add: demo_env_def)

lemma demo_matches:
  "re_search_literal_icase ''bluez'' ''BlueZ: Bluetooth tools''"
  "re_search_literal_icase ''bluetooth'' ''BlueZ: Bluetooth tools''"
  "\<not> re_search_literal_icase ''bluez'' ''Bluetooth: series 2''"
  "re_search_literal_icase ''bluetooth'' ''Bluetooth: series 2''"
  "\<not> re_search_literal_icase ''bluez'' ''net: other''"
  "\<not> re_search_literal_icase ''bluetooth'' ''net: other''"
  by (simp_all add: re_search_literal_icase_def next_folded_def lower_def startswith_def)

text \<open>The long s is found by the search for a tag, as Python finds it.\<close>

lemma long_s_is_found:
  "re_search_literal_icase ''PW_SID:7'' (''pw_'' @ [CHR 0xC5, CHR 0xBF] @ ''id:7 x'')"
  by (simp add: re_search_literal_icase_def next_folded_def lower_def startswith_def)

lemma demo_named_file_list:
  "series_get_file_list demo_env (demo_named name) =
     ([Http_Get ''https://patchwork.kernel.org/api/patches/21'',
       Http_Get ''https://patchwork.kernel.org/api/patches/22''], Inr [])"
  by (simp add: series_get_file_list_def demo_named_def demo_series_2 pw_get_patch_ok
      demo_env_fields patch_get_file_list_empty PW_BASE_URL_def py_str_demo)

lemma demo_get_pull:
  "get_pull demo_env 101 =
     Some \<lparr>pull_number = 101, pull_title = ''[PW_SID:1] first'', head_ref = ''1''\<rparr>"
  "get_pull demo_env 102 =
     Some \<lparr>pull_number = 102, pull_title = ''[PW_SID:2] second'', head_ref = ''2''\<rparr>"
  "get_pull demo_env 103 =
     Some \<lparr>pull_number = 103, pull_title = ''[PW_SID:3] third'', head_ref = ''3''\<rparr>"
  "get_pull demo_env 104 =
     Some \<lparr>pull_number = 104, pull_title = ''Fix typo in README'', head_ref = ''typo''\<rparr>"
  by (simp_all add: demo_env_def demo_pulls_def demo_foreign_pull_def)

lemma demo_tags:
  "re_search_sid ''[PW_SID:1] first'' = Some ''1''"
  "re_search_sid ''[PW_SID:2] second'' = Some ''2''"
  "re_search_sid ''[PW_SID:3] third'' = Some ''3''"
  "re_search_sid ''Fix typo in README'' = None"
  "py_int ''1'' = 1" "py_int ''2'' = 2" "py_int ''3'' = 3"
  by (simp_all add: re_search_sid_def startswith_def is_digit_def py_int_def digit_val_def)

lemma demo_linked: "linked demo_env demo_pages"
  by (simp add: demo_pages_def demo_env_def)

lemma demo_flags:
  "\<not> dry_run demo_args" "\<not> no_update_check demo_args" "\<not> ignore_check demo_args"
  "src_dir demo_args = ''/src''" "branch demo_args = ''workflow''" "key_str demo_args = ''kernel''"
  by (simp_all add: demo_args_def)

lemma demo_apply_values:
  "patches (demo_series 2) = [demo_patch 21 ''first'', demo_patch 22 ''second'']"
  "series_name (demo_series 2) = Some ''Bluetooth: series 2''"
  "am_result demo_env demo_args ''/tmp/pw/2'' (demo_patch 21 ''first'') = (0, ''ok'', [])"
  "am_result demo_env demo_args ''/tmp/pw/2'' (demo_patch 22 ''second'') = (128, [], ''error: patch failed'')"
  "am_stderr demo_env demo_args ''/tmp/pw/2'' (demo_patch 22 ''second'') = ''error: patch failed''"
  "check_accepted demo_env token p state description"
  "am_call demo_args ''/tmp/pw/2'' (demo_patch 21 ''first'') = Cmd_Run [''git'', ''am'', ''/tmp/pw/2/21.patch''] ''/src''"
  "am_call demo_args ''/tmp/pw/2'' (demo_patch 22 ''second'') = Cmd_Run [''git'', ''am'', ''/tmp/pw/2/22.patch''] ''/src''"
  "abort_call demo_args = Cmd_Run [''git'', ''am'', ''--abort''] ''/src''"
  "check_post ''secret'' (demo_patch 21 ''first'') 1 ''Success'' =
     Http_Post ''https://patchwork.kernel.org/api/patches/21/checks/''
       [(''Authorization'', ''Token secret'')]
       \<lparr>cc_user = 104215, cc_state = 1, cc_target_url = [], cc_context = ''pre-ci_am'',
        cc_description = ''Success''\<rparr>"
  "check_post ''secret'' (demo_patch 22 ''second'') 3 ''error: patch failed'' =
     Http_Post ''https://patchwork.kernel.org/api/patches/22/checks/''
       [(''Authorization'', ''Token secret'')]
       \<lparr>cc_user = 104215, cc_state = 3, cc_target_url = [], cc_context = ''pre-ci_am'',
        cc_description = ''error: patch failed''\<rparr>"
  by (simp_all add: demo_series_2 demo_patch_def py_str_demo am_result_def am_stderr_def
      demo_env_fields demo_args_def path_join_def startswith_def check_accepted_def
      am_call_def abort_call_def check_post_def check_content_of_def PW_BASE_URL_def)

lemma demo_email:
  "enable (email demo_config)" "user (email demo_config) = ''bot@example.org''"
  by (simp_all add: demo_config_def)

section \<open>Check submission\<close>

text \<open>
  C8. Without \<^verbatim>\<open>PATCHWORK_TOKEN\<close> in the environment the call logs three lines,
  one of them the error, performs no POST (the trace holds nothing else) and returns
  \<open>None\<close> without raising. With the token the call performs one POST; when the
  status of the response is not 201 it raises the HTTP error of that status, and when
  it is 201 it returns the decoded response.
\<close>

theorem pw_submit_check_token:
  "(environ env ''PATCHWORK_TOKEN'' = None \<longrightarrow>
      pw_submit_check env patch_id state ctx description target_url =
        ([Print (''Submit result(state='' @ py_str state @ '') to Patchwork/Check''),
          Print (''URL: '' @ PW_BASE_URL @ ''/patches/'' @ py_str patch_id @ ''/checks/''),
          Print ''ERROR: Unable to find PATCHWORK_TOKEN in environment''], Inr None))
   \<and> (\<forall>token. environ env ''PATCHWORK_TOKEN'' = Some token \<longrightarrow>
        (let url = PW_BASE_URL @ ''/patches/'' @ py_str patch_id @ ''/checks/'';
             headers = [(''Authorization'', ''Token '' @ token)];
             cont = \<lparr>cc_user = 104215, cc_state = state,
                     cc_target_url = (case target_url of None \<Rightarrow> [] | Some t \<Rightarrow> t),
                     cc_context = ctx, cc_description = description\<rparr>;
             status = status_code (post_check env url headers cont)
         in filter (\<lambda>ev. case ev of Http_Post _ _ _ \<Rightarrow> True | _ \<Rightarrow> False)
              (fst (pw_submit_check env patch_id state ctx description target_url))
              = [Http_Post url headers cont]
            \<and> (status \<noteq> 201 \<longrightarrow>
                 snd (pw_submit_check env patch_id state ctx description target_url) =
                   Inl (HTTPError (''POST '' @ py_str status)))
            \<and> (status = 201 \<longrightarrow>
                 snd (pw_submit_check env patch_id state ctx description target_url) =
                   Inr (Some (body (post_check env url headers cont))))))"
  by (simp add: pw_submit_check_def requests_post_def Let_def io_return_def)

theorem pw_submit_check_token_witness:
  "pw_submit_check (demo_env\<lparr>environ := (\<lambda>k. None)\<rparr>) 22 3 ''pre-ci_am'' ''error'' None =
     ([Print ''Submit result(state=3) to Patchwork/Check'',
       Print ''URL: https://patchwork.kernel.org/api/patches/22/checks/'',
       Print ''ERROR: Unable to find PATCHWORK_TOKEN in environment''], Inr None)
   \<and> snd (pw_submit_check
            (demo_env\<lparr>post_check := (\<lambda>u h c. \<lparr>status_code = 500, body = [], links_next = None\<rparr>)\<rparr>)
            22 3 ''pre-ci_am'' ''error'' None) = Inl (HTTPError ''POST 500'')"
  using pw_submit_check_token [of "demo_env\<lparr>environ := (\<lambda>k. None)\<rparr>" 22 3 "''pre-ci_am''" "''error''" None]
    pw_submit_check_token
      [of "demo_env\<lparr>post_check := (\<lambda>u h c. \<lparr>status_code = 500, body = [], links_next = None\<rparr>)\<rparr>"
          22 3 "''pre-ci_am''" "''error''" None]
  by (simp add: demo_env_def PW_BASE_URL_def py_str_def str_nat.simps digit_char_def Let_def)

section \<open>The "already checked" test\<close>

text \<open>
  C9. The test reads the check state of the first patch only: two series with the same
  first patch, on two trackers that answer alike for that patch, get the same answer
  whatever their later patches are. When the first patch is pending the series is not
  skipped: the body of the loop goes on after the test. When the first patch is not
  pending and the override is not set, the series is skipped: the one GET of the first
  patch is all the loop body does.
\<close>

theorem already_checked_first_patch_only:
  assumes "patches s = p # later"
  shows "(patches s' = p # later' \<and>
            get_patch env' (PW_BASE_URL @ ''/patches/'' @ py_str (pid p))
              = get_patch env (PW_BASE_URL @ ''/patches/'' @ py_str (pid p)) \<longrightarrow>
          already_checked env' a s' = already_checked env a s)
       \<and> (status_code (get_patch env (PW_BASE_URL @ ''/patches/'' @ py_str (pid p))) = 200 \<and>
          check (body (get_patch env (PW_BASE_URL @ ''/patches/'' @ py_str (pid p)))) = ''pending'' \<longrightarrow>
          snd (already_checked env a s) = Inr False \<and>
          process_series env a cfg github_pulls root (i, s) =
            (fst (already_checked env a s) @ fst (handle_series env a cfg github_pulls root i s),
             snd (handle_series env a cfg github_pulls root i s)))
       \<and> (status_code (get_patch env (PW_BASE_URL @ ''/patches/'' @ py_str (pid p))) = 200 \<and>
          check (body (get_patch env (PW_BASE_URL @ ''/patches/'' @ py_str (pid p)))) \<noteq> ''pending'' \<and>
          \<not> ignore_check a \<longrightarrow>
          already_checked env a s =
            ([Http_Get (PW_BASE_URL @ ''/patches/'' @ py_str (pid p))], Inr True) \<and>
          process_series env a cfg github_pulls root (i, s) =
            ([Http_Get (PW_BASE_URL @ ''/patches/'' @ py_str (pid p))], Inr ()))"
proof (intro conjI impI)
  assume "patches s' = p # later' \<and>
    get_patch env' (PW_BASE_URL @ ''/patches/'' @ py_str (pid p))
      = get_patch env (PW_BASE_URL @ ''/patches/'' @ py_str (pid p))"
  with assms show "already_checked env' a s' = already_checked env a s"
    by (simp add: already_checked_def series_checked_def pw_get_patch_def requests_url_def)
next
  assume h: "status_code (get_patch env (PW_BASE_URL @ ''/patches/'' @ py_str (pid p))) = 200 \<and>
    check (body (get_patch env (PW_BASE_URL @ ''/patches/'' @ py_str (pid p)))) = ''pending''"
  with assms show c: "snd (already_checked env a s) = Inr False"
    by (simp add: already_checked_def series_checked_def pw_get_patch_ok io_return_def)
  then show "process_series env a cfg github_pulls root (i, s) =
       (fst (already_checked env a s) @ fst (handle_series env a cfg github_pulls root i s),
        snd (handle_series env a cfg github_pulls root i s))"
    by (cases "already_checked env a s") (simp add: process_series_def)
next
  assume h: "status_code (get_patch env (PW_BASE_URL @ ''/patches/'' @ py_str (pid p))) = 200 \<and>
    check (body (get_patch env (PW_BASE_URL @ ''/patches/'' @ py_str (pid p)))) \<noteq> ''pending'' \<and>
    \<not> ignore_check a"
  with assms show c: "already_checked env a s =
      ([Http_Get (PW_BASE_URL @ ''/patches/'' @ py_str (pid p))], Inr True)"
    by (simp add: already_checked_def series_checked_def pw_get_patch_ok io_return_def)
  then show "process_series env a cfg github_pulls root (i, s) =
      ([Http_Get (PW_BASE_URL @ ''/patches/'' @ py_str (pid p))], Inr ())"
    by (simp add: process_series_def io_return_def)
qed

theorem already_checked_first_patch_only_witness:
  "snd (already_checked (demo_env_checks ''pending'' ''success'') demo_args (demo_series 2)) = Inr False
   \<and> process_series (demo_env_checks ''success'' ''pending'') demo_args demo_config demo_pulls
        ''/tmp/pw'' (2, demo_series 2)
      = ([Http_Get ''https://patchwork.kernel.org/api/patches/21''], Inr ())"
  using already_checked_first_patch_only
      [where s = "demo_series 2" and p = "hd (patches (demo_series 2))"
         and later = "tl (patches (demo_series 2))"
         and env = "demo_env_checks ''pending'' ''success''" and a = demo_args
         and s' = "demo_series 2" and later' = "tl (patches (demo_series 2))"
         and env' = "demo_env_checks ''pending'' ''success''"
         and cfg = demo_config and github_pulls = demo_pulls and root = "''/tmp/pw''" and i = 2]
    already_checked_first_patch_only
      [where s = "demo_series 2" and p = "hd (patches (demo_series 2))"
         and later = "tl (patches (demo_series 2))"
         and env = "demo_env_checks ''success'' ''pending''" and a = demo_args
         and s' = "demo_series 2" and later' = "tl (patches (demo_series 2))"
         and env' = "demo_env_checks ''success'' ''pending''"
         and cfg = demo_config and github_pulls = demo_pulls and root = "''/tmp/pw''" and i = 2]
  by (simp add: demo_series_2 demo_env_checks_get_patch demo_args_def PW_BASE_URL_def py_str_demo)

section \<open>Relevance filter: precedence\<close>

lemma search_any_Some:
  "search_any search strs (Some n) = Inr (\<exists>str \<in> set strs. search str n)"
  by (induction strs) auto

lemma collect_files_keeps:
  "snd (collect_files env ps file_list) = Inr fl \<Longrightarrow> fl = file_list"
  by (induction ps arbitrary: file_list)
     (auto simp: patch_get_file_list_empty split: prod.splits sum.splits)

lemma series_get_file_list_empty:
  "snd (series_get_file_list env s) = Inr fl \<Longrightarrow> fl = []"
  unfolding series_get_file_list_def by (rule collect_files_keeps)

text \<open>
  C6. For a series with a name: when an exclude string is found in the name the filter
  returns \<open>False\<close> at once, an include string being found or not; when no exclude
  string and some include string is found it returns \<open>True\<close> at once; when none
  is found the result is that of the file check on the derived file list, which is
  \<open>False\<close> when the list is empty.
\<close>

theorem filter_repo_type_precedence:
  assumes "series_name s = Some name"
  shows "((\<exists>str \<in> set (exclude_strs detail). re_search env str name) \<longrightarrow>
            filter_repo_type env detail s dir = ([], Inr False))
       \<and> (\<not> (\<exists>str \<in> set (exclude_strs detail). re_search env str name) \<and>
          (\<exists>str \<in> set (include_strs detail). re_search env str name) \<longrightarrow>
            filter_repo_type env detail s dir = ([], Inr True))
       \<and> (\<not> (\<exists>str \<in> set (exclude_strs detail). re_search env str name) \<and>
          \<not> (\<exists>str \<in> set (include_strs detail). re_search env str name) \<longrightarrow>
            filter_repo_type env detail s dir =
              io_bind (series_get_file_list env s) (\<lambda>file_list.
                if file_list = [] then io_return False
                else io_return (files_exist env dir file_list))
            \<and> (snd (series_get_file_list env s) = Inr [] \<longrightarrow>
                 filter_repo_type env detail s dir = (fst (series_get_file_list env s), Inr False)))"
  using assms
  by (cases "series_get_file_list env s")
     (auto simp: filter_repo_type_def search_any_Some io_return_def)

theorem filter_repo_type_precedence_witness:
  "filter_repo_type demo_env demo_detail (demo_named ''BlueZ: Bluetooth tools'') ''/src'' = ([], Inr False)
   \<and> filter_repo_type demo_env demo_detail (demo_named ''Bluetooth: series 2'') ''/src'' = ([], Inr True)
   \<and> filter_repo_type demo_env demo_detail (demo_named ''net: other'') ''/src'' =
       ([Http_Get ''https://patchwork.kernel.org/api/patches/21'',
         Http_Get ''https://patchwork.kernel.org/api/patches/22''], Inr False)"
  using filter_repo_type_precedence
      [of "demo_named ''BlueZ: Bluetooth tools''" "''BlueZ: Bluetooth tools''" demo_detail demo_env "''/src''"]
    filter_repo_type_precedence
      [of "demo_named ''Bluetooth: series 2''" "''Bluetooth: series 2''" demo_detail demo_env "''/src''"]
    filter_repo_type_precedence
      [of "demo_named ''net: other''" "''net: other''" demo_detail demo_env "''/src''"]
  by (simp add: demo_named_file_list demo_matches demo_env_fields demo_detail_def)
     (simp add: demo_named_def io_return_def)

text \<open>
  Since the derived file list is always empty, a series that matches no include
  string is never relevant.
\<close>

lemma filter_repo_type_fall_through_false:
  assumes "series_name s = Some name"
    and "\<not> (\<exists>str \<in> set (include_strs detail). re_search env str name)"
  shows "snd (filter_repo_type env detail s dir) \<noteq> Inr True"
proof (cases "series_get_file_list env s")
  case (Pair es r)
  show ?thesis
  proof (cases r)
    case (Inl e)
    with Pair assms show ?thesis
      by (auto simp: filter_repo_type_def search_any_Some io_return_def split: bool.splits)
  next
    case (Inr fl)
    with Pair have "fl = []"
      using series_get_file_list_empty [of env s fl] by simp
    with Pair Inr assms show ?thesis
      by (auto simp: filter_repo_type_def search_any_Some io_return_def split: bool.splits)
  qed
qed


section \<open>The closing pass\<close>

text \<open>
  The match of the tag pattern, said without the program: the title is
  \<^verbatim>\<open>[PW_SID:\<close>, then the digits of group 1, then \<^verbatim>\<open>]\<close>, then anything.
\<close>

lemma re_search_sid_Some:
  "re_search_sid t = Some sid \<longleftrightarrow>
     sid \<noteq> [] \<and> (\<forall>c \<in> set sid. is_digit c) \<and>
     (\<exists>rest. t = ''[PW_SID:'' @ sid @ '']'' @ rest)"
proof
  assume h: "re_search_sid t = Some sid"
  define r where "r = drop 8 t"
  from h have sw: "startswith t ''[PW_SID:''"
    by (simp add: re_search_sid_def split: if_splits)
  then have t: "t = ''[PW_SID:'' @ r"
    using startswith_split [of t "''[PW_SID:''"] by (simp add: r_def eval_nat_numeral)
  from h sw have sid: "sid = takeWhile is_digit r" and ne: "sid \<noteq> []"
    and br: "startswith (drop (length sid) r) '']''"
    by (auto simp: re_search_sid_def Let_def r_def split: if_splits)
  from br have "drop (length sid) r = '']'' @ drop 1 (drop (length sid) r)"
    using startswith_split [of "drop (length sid) r" "'']''"] by simp
  moreover have "r = take (length sid) r @ drop (length sid) r"
    by (rule append_take_drop_id [symmetric])
  moreover have "take (length sid) r = sid"
    unfolding sid by (metis takeWhile_eq_take)
  ultimately have "r = sid @ '']'' @ drop 1 (drop (length sid) r)"
    by metis
  with t have "t = ''[PW_SID:'' @ sid @ '']'' @ drop 1 (drop (length sid) r)"
    by metis
  moreover have "\<forall>c \<in> set sid. is_digit c"
    unfolding sid by (meson set_takeWhileD)
  ultimately show "sid \<noteq> [] \<and> (\<forall>c \<in> set sid. is_digit c) \<and>
     (\<exists>rest. t = ''[PW_SID:'' @ sid @ '']'' @ rest)"
    using ne by blast
next
  assume "sid \<noteq> [] \<and> (\<forall>c \<in> set sid. is_digit c) \<and>
     (\<exists>rest. t = ''[PW_SID:'' @ sid @ '']'' @ rest)"
  then obtain rest where ne: "sid \<noteq> []" and dg: "\<forall>c \<in> set sid. is_digit c"
    and t: "t = ''[PW_SID:'' @ sid @ '']'' @ rest" by blast
  have nd: "\<not> is_digit CHR '']''" by (simp add: is_digit_def)
  have tw: "takeWhile is_digit (sid @ CHR '']'' # rest) = sid"
    using dg nd by (simp add: takeWhile_append2)
  show "re_search_sid t = Some sid"
    using ne by (simp add: re_search_sid_def t startswith_def tw Let_def)
qed


text \<open>
  C2 (as stated it fails). The claim: for a title without a well-formed tag, the
  extraction returns none and the closing pass leaves the pull request untouched. In
  the small world the pull request 104, titled \<^verbatim>\<open>Fix typo in README\<close>, is closed
  and its branch deleted.
\<close>

theorem untagged_pull_is_closed_counterexample:
  "re_search_sid (pull_title demo_foreign_pull) = None
   \<and> clean_up demo_env demo_args [(1, demo_series 1)] [demo_foreign_pull] =
       ([Get_Pull 104, Edit_Closed 104, Get_Git_Ref ''heads/typo'', Delete_Ref ''heads/typo''],
        Inr ())"
  by (simp add: clean_up_def clean_up_pr_def get_pw_sid_def demo_foreign_pull_def demo_tags
      demo_args_def github_close_pr_ok [OF demo_get_pull(4)] demo_env_fields)

text \<open>
  C2 (amended). For a title without a well-formed tag the extraction returns the
  integer \<open>0\<close> and raises nothing; the closing pass then treats \<open>0\<close> as the
  series id: the pull request is left untouched when \<open>0\<close> is a key of the series
  index or the run is a dry run, and is closed, its branch deleted, otherwise.
\<close>

theorem untagged_pull_closing:
  assumes "re_search_sid (pull_title pr) = None"
  shows "get_pw_sid (pull_title pr) = 0
       \<and> clean_up_pr env a new_series pr =
           (if 0 \<in> set (map fst new_series) then ([], Inr ())
            else if dry_run a then ([], Inr ())
            else github_close_pr env (pull_number pr))
       \<and> (0 \<notin> set (map fst new_series) \<and> \<not> dry_run a \<and>
          get_pull env (pull_number pr) = Some pr \<and>
          git_ref_exists env (''heads/'' @ head_ref pr) \<longrightarrow>
          clean_up_pr env a new_series pr =
            ([Get_Pull (pull_number pr), Edit_Closed (pull_number pr),
              Get_Git_Ref (''heads/'' @ head_ref pr), Delete_Ref (''heads/'' @ head_ref pr)],
             Inr ()))"
  using assms
  by (auto simp: get_pw_sid_def clean_up_pr_def io_return_def github_close_pr_ok)

theorem untagged_pull_closing_witness:
  "get_pw_sid (pull_title demo_foreign_pull) = 0
   \<and> clean_up_pr demo_env demo_args [(1, demo_series 1)] demo_foreign_pull =
       ([Get_Pull 104, Edit_Closed 104, Get_Git_Ref ''heads/typo'', Delete_Ref ''heads/typo''],
        Inr ())
   \<and> clean_up_pr demo_env (demo_args\<lparr>dry_run := True\<rparr>) [(1, demo_series 1)] demo_foreign_pull =
       ([], Inr ())"
  using untagged_pull_closing [of demo_foreign_pull demo_env demo_args "[(1, demo_series 1)]"]
    untagged_pull_closing
      [of demo_foreign_pull demo_env "demo_args\<lparr>dry_run := True\<rparr>" "[(1, demo_series 1)]"]
  by (auto simp: demo_foreign_pull_def demo_tags demo_args_def demo_get_pull demo_env_fields)

text \<open>
  The closing loop is part of a run only when discovery found a series: with an empty
  index \<^verbatim>\<open>main\<close> returns before the loop over the series, and no pull request
  is closed.
\<close>

lemma main_without_series:
  assumes "key_str a = ''kernel'' \<or> key_str a = ''user''"
    and "load_config env (config_file a) = Some cfg"
    and "environ env ''GITHUB_TOKEN'' = Some github_token"
    and "get_new_series env (patch_state a) = Some (es, Inr [])"
  shows "main env a = Some (es, Inr ())"
  using assms by (auto simp: main_def Let_def)

text \<open>
  C5. In a closing pass that is not a dry run, on a forge that answers for every open
  pull request, every turn of the loop ends well, and the turn of a pull request with
  a well-formed tag does nothing when the tagged id is a key of the series index, and
  closes the pull request and deletes its head branch when it is not. With the open
  pull requests tagged 1, 2 and 3 and the series 1 and 3 in the index, the pass closes
  the pull request of series 2 and does nothing else.
\<close>

theorem closing_pass_tagged:
  assumes "\<not> dry_run a"
    and "\<forall>pr \<in> set github_pulls.
           get_pull env (pull_number pr) = Some pr \<and> git_ref_exists env (''heads/'' @ head_ref pr)"
  shows "clean_up env a new_series github_pulls =
           (concat (map (\<lambda>pr. fst (clean_up_pr env a new_series pr)) github_pulls), Inr ())
       \<and> (\<forall>pr \<in> set github_pulls. \<forall>sid. re_search_sid (pull_title pr) = Some sid \<longrightarrow>
            clean_up_pr env a new_series pr =
              (if py_int sid \<in> set (map fst new_series) then ([], Inr ())
               else ([Get_Pull (pull_number pr), Edit_Closed (pull_number pr),
                      Get_Git_Ref (''heads/'' @ head_ref pr),
                      Delete_Ref (''heads/'' @ head_ref pr)], Inr ())))"
proof
  have "\<forall>pr \<in> set github_pulls. snd (clean_up_pr env a new_series pr) = Inr ()"
    using assms by (auto simp: clean_up_pr_def github_close_pr_ok Let_def)
  then show "clean_up env a new_series github_pulls =
      (concat (map (\<lambda>pr. fst (clean_up_pr env a new_series pr)) github_pulls), Inr ())"
    unfolding clean_up_def by (rule io_foreach_all_ok)
next
  show "\<forall>pr \<in> set github_pulls. \<forall>sid. re_search_sid (pull_title pr) = Some sid \<longrightarrow>
            clean_up_pr env a new_series pr =
              (if py_int sid \<in> set (map fst new_series) then ([], Inr ())
               else ([Get_Pull (pull_number pr), Edit_Closed (pull_number pr),
                      Get_Git_Ref (''heads/'' @ head_ref pr),
                      Delete_Ref (''heads/'' @ head_ref pr)], Inr ()))"
    using assms by (auto simp: clean_up_pr_def get_pw_sid_def github_close_pr_ok io_return_def)
qed

theorem closing_pass_tagged_witness:
  "clean_up demo_env demo_args [(1, demo_series 1), (3, demo_series 3)] demo_pulls =
     ([Get_Pull 102, Edit_Closed 102, Get_Git_Ref ''heads/2'', Delete_Ref ''heads/2''], Inr ())"
  using closing_pass_tagged
      [of demo_args demo_pulls demo_env "[(1, demo_series 1), (3, demo_series 3)]"]
  by (simp add: demo_args_def demo_pulls_def demo_get_pull demo_env_fields demo_tags)

section \<open>Pagination\<close>

lemma read_pages_linked:
  "linked env ((u, ps) # rest) \<Longrightarrow>
   read_pages env u acc es =
     Some (es @ map (\<lambda>p. Http_Get (fst p)) ((u, ps) # rest),
           Inr (acc @ concat (map snd ((u, ps) # rest))))"
proof (induction rest arbitrary: u ps acc es)
  case Nil
  then show ?case
    by (subst read_pages.simps) (simp add: requests_url_def)
next
  case (Cons q rest)
  obtain u' ps' where q: "q = (u', ps')" by (cases q)
  from Cons.prems q have r: "get_patches env u = \<lparr>status_code = 200, body = ps, links_next = Some u'\<rparr>"
    and l: "linked env ((u', ps') # rest)" by simp_all
  have "read_pages env u acc es = read_pages env u' (acc @ ps) (es @ [Http_Get u])"
    by (subst read_pages.simps) (simp add: requests_url_def r)
  also have "\<dots> = Some ((es @ [Http_Get u]) @ map (\<lambda>p. Http_Get (fst p)) ((u', ps') # rest),
           Inr ((acc @ ps) @ concat (map snd ((u', ps') # rest))))"
    by (rule Cons.IH [OF l])
  finally show ?case by (simp add: q)
qed

lemma patches_url_states:
  "patches_url states =
     PW_BASE_URL @ ''/patches/?project='' @ PW_PROJECT_ID @ ''&archived=0''
     @ concat (map (\<lambda>state. ''&state='' @ state) states)"
proof -
  have "foldl (\<lambda>url state. url @ ''&state='' @ state) b states
        = b @ concat (map (\<lambda>state. ''&state='' @ state) states)" for b
    by (induction states arbitrary: b) simp_all
  then show ?thesis by (simp add: patches_url_def)
qed

text \<open>
  C7. On a tracker that serves the patches in pages, the first at the URL that names
  the project, the non-archived flag and every requested state, the fetch returns: it
  performs one GET for each page, in the order of the links, and returns the
  concatenation of the pages. So every patch of every page is in the result, and the
  result has no duplicates when the pages have none among them.
\<close>

theorem pw_get_patches_by_state_all_pages:
  assumes "linked env ((u, ps) # rest)"
    and "u = PW_BASE_URL @ ''/patches/?project='' @ PW_PROJECT_ID @ ''&archived=0''
             @ concat (map (\<lambda>state. ''&state='' @ state) states)"
  shows "\<exists>result.
           pw_get_patches_by_state env states =
             Some (map (\<lambda>page. Http_Get (fst page)) ((u, ps) # rest), Inr result)
           \<and> result = concat (map snd ((u, ps) # rest))
           \<and> set result = (\<Union>page \<in> set ((u, ps) # rest). set (snd page))
           \<and> (distinct (concat (map snd ((u, ps) # rest))) \<longrightarrow> distinct result)"
proof -
  have "pw_get_patches_by_state env states =
           Some (map (\<lambda>page. Http_Get (fst page)) ((u, ps) # rest),
                 Inr (concat (map snd ((u, ps) # rest))))"
    using read_pages_linked [OF assms(1), of "[]" "[]"] assms(2)
    by (simp add: pw_get_patches_by_state_def patches_url_states)
  then show ?thesis by auto
qed

theorem pw_get_patches_by_state_all_pages_witness:
  "pw_get_patches_by_state demo_env [''1'', ''2''] =
     Some ([Http_Get ''https://patchwork.kernel.org/api/patches/?project=395&archived=0&state=1&state=2'',
            Http_Get ''page2''],
           Inr [\<lparr>item_id = 11, item_series = Some [1]\<rparr>, \<lparr>item_id = 12, item_series = Some [1]\<rparr>,
                \<lparr>item_id = 21, item_series = Some [2]\<rparr>, \<lparr>item_id = 22, item_series = Some [2]\<rparr>])"
  using pw_get_patches_by_state_all_pages
      [of demo_env "fst (hd demo_pages)" "snd (hd demo_pages)" "tl demo_pages" "[''1'', ''2'']"]
    demo_linked
  by (simp add: demo_pages_def PW_BASE_URL_def PW_PROJECT_ID_def)

section \<open>The loop over the patches of a series\<close>

lemma pw_submit_check_accepted:
  assumes "environ env ''PATCHWORK_TOKEN'' = Some token"
    and "check_accepted env token p state description"
  shows "pw_submit_check env (pid p) state ''pre-ci_am'' description None =
     (submit_trace token p state description,
      Inr (Some (body (post_check env (PW_BASE_URL @ ''/patches/'' @ py_str (pid p) @ ''/checks/'')
        [(''Authorization'', ''Token '' @ token)] (check_content_of state description)))))"
  using assms
  by (simp add: pw_submit_check_def requests_post_def Let_def io_return_def check_accepted_def
      check_post_def check_content_of_def submit_trace_def)

lemma submit_unless_disabled_accepted:
  assumes "\<not> dry_run a" and "\<not> no_update_check a"
    and "environ env ''PATCHWORK_TOKEN'' = Some token"
    and "check_accepted env token p state description"
  shows "submit_unless_disabled env a (pid p) state description =
     (submit_trace token p state description, Inr ())"
  using assms
  by (simp add: submit_unless_disabled_def pw_submit_check_accepted)

lemma apply_patch_applies:
  assumes "\<not> dry_run a" and "\<not> no_update_check a"
    and "environ env ''PATCHWORK_TOKEN'' = Some token"
    and "status_code (get_mbox env (mbox p)) = 200"
    and "fst (am_result env a series_dir p) = 0"
    and "check_accepted env token p 1 ''Success''"
  shows "apply_patch env a series_dir p =
     (fetch_trace env a series_dir p @ submit_trace token p 1 ''Success'', Inr None)"
  using assms(4,5) submit_unless_disabled_accepted [OF assms(1,2,3,6)]
  by (cases "am_result env a series_dir p")
     (simp add: apply_patch_def requests_url_def io_emit_def git_am_def cmd_run_def Let_def
        am_result_def am_call_def fetch_trace_def)

lemma apply_patch_fails:
  assumes "\<not> dry_run a" and "\<not> no_update_check a"
    and "environ env ''PATCHWORK_TOKEN'' = Some token"
    and "status_code (get_mbox env (mbox p)) = 200"
    and "fst (am_result env a series_dir p) \<noteq> 0"
    and "check_accepted env token p 3 (am_stderr env a series_dir p)"
  shows "apply_patch env a series_dir p =
     (fetch_trace env a series_dir p
      @ submit_trace token p 3 (am_stderr env a series_dir p) @ [abort_call a],
      Inr (Some (EMAIL_MESSAGE (am_stderr env a series_dir p))))"
proof -
  obtain ret out err where r: "am_result env a series_dir p = (ret, out, err)"
    by (cases "am_result env a series_dir p")
  with assms(5,6) have ne: "ret \<noteq> 0" and acc: "check_accepted env token p 3 err"
    by (simp_all add: am_stderr_def)
  obtain ar where ab: "run_cmd env [''git'', ''am'', ''--abort''] (src_dir a) = ar" by simp
  show ?thesis
    using assms(4) ne r submit_unless_disabled_accepted [OF assms(1,2,3) acc]
    by (cases ar)
       (simp add: apply_patch_def requests_url_def io_emit_def git_am_def git_am_abort_def
          cmd_run_def Let_def am_result_def am_call_def abort_call_def ab io_return_def
          fetch_trace_def am_stderr_def)
qed

lemma apply_patches_until_failure:
  assumes "\<not> dry_run a" and "\<not> no_update_check a"
    and "environ env ''PATCHWORK_TOKEN'' = Some token"
    and "\<forall>p \<in> set applied. status_code (get_mbox env (mbox p)) = 200 \<and>
           fst (am_result env a series_dir p) = 0 \<and> check_accepted env token p 1 ''Success''"
    and "status_code (get_mbox env (mbox pk)) = 200"
    and "fst (am_result env a series_dir pk) \<noteq> 0"
    and "check_accepted env token pk 3 (am_stderr env a series_dir pk)"
  shows "apply_patches env a series_dir (applied @ pk # later) =
     (concat (map (\<lambda>p. fetch_trace env a series_dir p @ submit_trace token p 1 ''Success'') applied)
      @ fetch_trace env a series_dir pk
      @ submit_trace token pk 3 (am_stderr env a series_dir pk) @ [abort_call a],
      Inr (False, EMAIL_MESSAGE (am_stderr env a series_dir pk)))"
  using assms(4)
proof (induction applied)
  case Nil
  show ?case
    by (simp add: apply_patch_fails [OF assms(1,2,3,5,6,7)])
next
  case (Cons p applied)
  then have "apply_patch env a series_dir p =
     (fetch_trace env a series_dir p @ submit_trace token p 1 ''Success'', Inr None)"
    by (intro apply_patch_applies assms(1,2,3)) simp_all
  with Cons show ?case by simp
qed

lemma filter_traces [simp]:
  "filter is_check_post (fetch_trace env a series_dir p) = []"
  "filter is_check_post (submit_trace token p state description) = [check_post token p state description]"
  "filter is_cmd (fetch_trace env a series_dir p) = [am_call a series_dir p]"
  "filter is_cmd (submit_trace token p state description) = []"
  "filter is_create_pull (fetch_trace env a series_dir p) = []"
  "filter is_create_pull (submit_trace token p state description) = []"
  "filter is_sendmail (fetch_trace env a series_dir p) = []"
  "filter is_sendmail (submit_trace token p state description) = []"
  "filter (\<lambda>ev. is_cmd ev \<or> is_check_post ev) (fetch_trace env a series_dir p) = [am_call a series_dir p]"
  "filter (\<lambda>ev. is_cmd ev \<or> is_check_post ev) (submit_trace token p state description)
     = [check_post token p state description]"
  by (simp_all add: fetch_trace_def submit_trace_def am_call_def check_post_def)

lemma is_abort_call [simp]:
  "is_cmd (abort_call a)" "\<not> is_check_post (abort_call a)"
  "\<not> is_create_pull (abort_call a)" "\<not> is_sendmail (abort_call a)"
  by (simp_all add: abort_call_def)

lemma filter_fail_check [simp]:
  "filter is_fail_check (fetch_trace env a series_dir p) = []"
  "filter is_fail_check (submit_trace token p 1 description) = []"
  "filter is_fail_check (submit_trace token p 3 description) = [check_post token p 3 description]"
  "\<not> is_fail_check (abort_call a)"
  by (simp_all add: fetch_trace_def submit_trace_def am_call_def check_post_def check_content_of_def
      abort_call_def)

text \<open>
  C10. In a run that uploads checks (neither \<^verbatim>\<open>--dry-run\<close> nor
  \<^verbatim>\<open>--no-update-check\<close>, the token present, the tracker accepting the POSTs),
  when the patches \<open>applied\<close> apply and the next patch \<open>pk\<close> does not: the
  commands and the check POSTs of the loop are, in order, for each applied patch its
  \<^verbatim>\<open>git am\<close> followed at once by its pass check (state 1), then the
  \<^verbatim>\<open>git am\<close> of \<open>pk\<close>, its fail check (state 3) and the abort. The pass
  checks of the earlier patches are posted before the fail check, and nothing is
  posted or applied for the patches after \<open>pk\<close>.
\<close>

theorem pass_checks_before_fail_check:
  assumes "\<not> dry_run a" and "\<not> no_update_check a"
    and "environ env ''PATCHWORK_TOKEN'' = Some token"
    and "\<forall>p \<in> set applied. status_code (get_mbox env (mbox p)) = 200 \<and>
           fst (am_result env a series_dir p) = 0 \<and> check_accepted env token p 1 ''Success''"
    and "status_code (get_mbox env (mbox pk)) = 200"
    and "fst (am_result env a series_dir pk) \<noteq> 0"
    and "check_accepted env token pk 3 (am_stderr env a series_dir pk)"
  shows "filter (\<lambda>ev. is_cmd ev \<or> is_check_post ev)
           (fst (apply_patches env a series_dir (applied @ pk # later))) =
         concat (map (\<lambda>p. [am_call a series_dir p, check_post token p 1 ''Success'']) applied)
         @ [am_call a series_dir pk, check_post token pk 3 (am_stderr env a series_dir pk),
            abort_call a]
       \<and> filter is_check_post (fst (apply_patches env a series_dir (applied @ pk # later))) =
         map (\<lambda>p. check_post token p 1 ''Success'') applied
         @ [check_post token pk 3 (am_stderr env a series_dir pk)]
       \<and> snd (apply_patches env a series_dir (applied @ pk # later)) =
         Inr (False, EMAIL_MESSAGE (am_stderr env a series_dir pk))"
proof -
  have f1: "filter (\<lambda>ev. is_cmd ev \<or> is_check_post ev)
       (concat (map (\<lambda>p. fetch_trace env a series_dir p @ submit_trace token p 1 ''Success'') ps))
     = concat (map (\<lambda>p. [am_call a series_dir p, check_post token p 1 ''Success'']) ps)" for ps
    by (induction ps) simp_all
  have f2: "filter is_check_post
       (concat (map (\<lambda>p. fetch_trace env a series_dir p @ submit_trace token p 1 ''Success'') ps))
     = map (\<lambda>p. check_post token p 1 ''Success'') ps" for ps
    by (induction ps) simp_all
  show ?thesis
    unfolding apply_patches_until_failure [OF assms]
    by (simp add: f1 f2)
qed


theorem pass_checks_before_fail_check_witness:
  "filter (\<lambda>ev. is_cmd ev \<or> is_check_post ev)
     (fst (apply_patches demo_env demo_args ''/tmp/pw/2''
        ([demo_patch 21 ''first''] @ demo_patch 22 ''second'' # [demo_patch 23 ''third'']))) =
     [Cmd_Run [''git'', ''am'', ''/tmp/pw/2/21.patch''] ''/src'',
      Http_Post ''https://patchwork.kernel.org/api/patches/21/checks/''
        [(''Authorization'', ''Token secret'')]
        \<lparr>cc_user = 104215, cc_state = 1, cc_target_url = [], cc_context = ''pre-ci_am'',
         cc_description = ''Success''\<rparr>,
      Cmd_Run [''git'', ''am'', ''/tmp/pw/2/22.patch''] ''/src'',
      Http_Post ''https://patchwork.kernel.org/api/patches/22/checks/''
        [(''Authorization'', ''Token secret'')]
        \<lparr>cc_user = 104215, cc_state = 3, cc_target_url = [], cc_context = ''pre-ci_am'',
         cc_description = ''error: patch failed''\<rparr>,
      Cmd_Run [''git'', ''am'', ''--abort''] ''/src'']"
  using pass_checks_before_fail_check
      [of demo_args demo_env "''secret''" "[demo_patch 21 ''first'']" "''/tmp/pw/2''"
          "demo_patch 22 ''second''" "[demo_patch 23 ''third'']"]
  by (simp add: demo_apply_values demo_env_fields demo_flags)
     


text \<open>
  C3. In such a run, for a series whose first patch applies and whose second does not:
  one fail check is posted, for the second patch (the first patch gets a pass check);
  the commands are the two \<^verbatim>\<open>git am\<close> and one abort, so nothing is pushed; no
  pull request is created; no mail is sent when email is disabled, and one mail, with
  the captured error text in its body, when email is enabled, its token present and
  the mail server answering.
\<close>

theorem second_patch_fails_to_apply:
  assumes "patches s = p1 # p2 # later" and "series_name s = Some name"
    and "\<not> dry_run a" and "\<not> no_update_check a"
    and "environ env ''PATCHWORK_TOKEN'' = Some token"
    and "status_code (get_mbox env (mbox p1)) = 200"
    and "fst (am_result env a series_dir p1) = 0"
    and "check_accepted env token p1 1 ''Success''"
    and "status_code (get_mbox env (mbox p2)) = 200"
    and "fst (am_result env a series_dir p2) \<noteq> 0"
    and "check_accepted env token p2 3 (am_stderr env a series_dir p2)"
  shows "filter is_fail_check (fst (apply_series env a cfg i s series_dir)) =
           [check_post token p2 3 (am_stderr env a series_dir p2)]
       \<and> filter is_check_post (fst (apply_series env a cfg i s series_dir)) =
           [check_post token p1 1 ''Success'',
            check_post token p2 3 (am_stderr env a series_dir p2)]
       \<and> filter is_cmd (fst (apply_series env a cfg i s series_dir)) =
           [am_call a series_dir p1, am_call a series_dir p2, abort_call a]
       \<and> filter is_create_pull (fst (apply_series env a cfg i s series_dir)) = []
       \<and> (\<not> enable (email cfg) \<longrightarrow>
            filter is_sendmail (fst (apply_series env a cfg i s series_dir)) = [] \<and>
            snd (apply_series env a cfg i s series_dir) = Inr ())
       \<and> (enable (email cfg) \<and> environ env ''EMAIL_TOKEN'' \<noteq> None \<and> smtp env = Smtp_Ok \<longrightarrow>
            (\<exists>to_addr msg.
               filter is_sendmail (fst (apply_series env a cfg i s series_dir)) =
                 [Smtp_Sendmail (user (email cfg)) to_addr msg] \<and>
               msg_body msg = EMAIL_MESSAGE (am_stderr env a series_dir p2)) \<and>
            snd (apply_series env a cfg i s series_dir) = Inr ())"
proof -
  have loop: "apply_patches env a series_dir (patches s) =
     (concat (map (\<lambda>p. fetch_trace env a series_dir p @ submit_trace token p 1 ''Success'') [p1])
      @ fetch_trace env a series_dir p2
      @ submit_trace token p2 3 (am_stderr env a series_dir p2) @ [abort_call a],
      Inr (False, EMAIL_MESSAGE (am_stderr env a series_dir p2)))"
    using apply_patches_until_failure [of a env token "[p1]" series_dir p2 later] assms
    by simp
  have ser: "apply_series env a cfg i s series_dir =
     io_bind (fetch_trace env a series_dir p1 @ submit_trace token p1 1 ''Success''
              @ fetch_trace env a series_dir p2
              @ submit_trace token p2 3 (am_stderr env a series_dir p2) @ [abort_call a], Inr ())
       (\<lambda>_. email_compose env (email cfg) s (EMAIL_MESSAGE (am_stderr env a series_dir p2)))"
    using assms(3) by (simp add: apply_series_def loop)
  have mail_off: "email_compose env (email cfg) s t = ([], Inr ())" if "\<not> enable (email cfg)" for t
    using that by (simp add: email_compose_def io_return_def)
  have mail_on: "\<exists>to_addr msg.
       filter is_sendmail (fst (email_compose env (email cfg) s t))
         = [Smtp_Sendmail (user (email cfg)) to_addr msg]
       \<and> msg_body msg = t
       \<and> filter is_fail_check (fst (email_compose env (email cfg) s t)) = []
       \<and> filter is_check_post (fst (email_compose env (email cfg) s t)) = []
       \<and> filter is_cmd (fst (email_compose env (email cfg) s t)) = []
       \<and> filter is_create_pull (fst (email_compose env (email cfg) s t)) = []
       \<and> snd (email_compose env (email cfg) s t) = Inr ()"
    if "enable (email cfg)" "environ env ''EMAIL_TOKEN'' \<noteq> None" "smtp env = Smtp_Ok" for t
    using that assms(1,2)
    by (auto simp: email_compose_def email_sendmail_def Let_def)
  show ?thesis
  proof (cases "enable (email cfg)")
    case False
    then show ?thesis by (simp add: ser mail_off)
  next
    case True
    show ?thesis
    proof (cases "environ env ''EMAIL_TOKEN'' \<noteq> None \<and> smtp env = Smtp_Ok")
      case sent: True
      obtain to_addr msg where
        "filter is_sendmail (fst (email_compose env (email cfg) s (EMAIL_MESSAGE (am_stderr env a series_dir p2))))
           = [Smtp_Sendmail (user (email cfg)) to_addr msg]"
        "msg_body msg = EMAIL_MESSAGE (am_stderr env a series_dir p2)"
        "filter is_fail_check (fst (email_compose env (email cfg) s (EMAIL_MESSAGE (am_stderr env a series_dir p2)))) = []"
        "filter is_check_post (fst (email_compose env (email cfg) s (EMAIL_MESSAGE (am_stderr env a series_dir p2)))) = []"
        "filter is_cmd (fst (email_compose env (email cfg) s (EMAIL_MESSAGE (am_stderr env a series_dir p2)))) = []"
        "filter is_create_pull (fst (email_compose env (email cfg) s (EMAIL_MESSAGE (am_stderr env a series_dir p2)))) = []"
        "snd (email_compose env (email cfg) s (EMAIL_MESSAGE (am_stderr env a series_dir p2))) = Inr ()"
        using mail_on [of "EMAIL_MESSAGE (am_stderr env a series_dir p2)"] True sent by blast
      then show ?thesis using True by (simp add: ser)
    next
      case False
      have quiet: "filter is_fail_check (fst (email_compose env (email cfg) s t)) = []
        \<and> filter is_check_post (fst (email_compose env (email cfg) s t)) = []
        \<and> filter is_cmd (fst (email_compose env (email cfg) s t)) = []
        \<and> filter is_create_pull (fst (email_compose env (email cfg) s t)) = []" for t
        using assms(1,2)
        by (auto simp: email_compose_def email_sendmail_def Let_def io_return_def
            split: option.splits smtp_outcome.splits)
      with True False show ?thesis by (auto simp: ser)
    qed
  qed
qed


theorem second_patch_fails_to_apply_witness:
  "filter is_fail_check (fst (apply_series demo_env demo_args demo_config 2 (demo_series 2) ''/tmp/pw/2'')) =
     [Http_Post ''https://patchwork.kernel.org/api/patches/22/checks/''
        [(''Authorization'', ''Token secret'')]
        \<lparr>cc_user = 104215, cc_state = 3, cc_target_url = [], cc_context = ''pre-ci_am'',
         cc_description = ''error: patch failed''\<rparr>]
   \<and> filter is_cmd (fst (apply_series demo_env demo_args demo_config 2 (demo_series 2) ''/tmp/pw/2'')) =
     [Cmd_Run [''git'', ''am'', ''/tmp/pw/2/21.patch''] ''/src'',
      Cmd_Run [''git'', ''am'', ''/tmp/pw/2/22.patch''] ''/src'',
      Cmd_Run [''git'', ''am'', ''--abort''] ''/src'']
   \<and> filter is_create_pull (fst (apply_series demo_env demo_args demo_config 2 (demo_series 2) ''/tmp/pw/2'')) = []
   \<and> length (filter is_sendmail
        (fst (apply_series demo_env demo_args demo_config 2 (demo_series 2) ''/tmp/pw/2''))) = 1
   \<and> snd (apply_series demo_env demo_args demo_config 2 (demo_series 2) ''/tmp/pw/2'') = Inr ()"
  using second_patch_fails_to_apply
      [of "demo_series 2" "demo_patch 21 ''first''" "demo_patch 22 ''second''" "[]"
          "''Bluetooth: series 2''" demo_args demo_env "''secret''" "''/tmp/pw/2''" demo_config 2]
  by (auto simp: demo_apply_values demo_env_fields demo_flags demo_email)

section \<open>Where pull requests are created\<close>

lemma created_titles_append [simp]:
  "created_titles (xs @ ys) = created_titles xs @ created_titles ys"
  by (induction xs rule: created_titles.induct) simp_all

lemma created_bind:
  assumes "created_titles (fst m) = []" and "\<And>x. created_titles (fst (f x)) = []"
  shows "created_titles (fst (io_bind m f)) = []"
proof (cases m)
  case (Pair es r)
  with assms show ?thesis by (cases r) simp_all
qed

lemma created_return [simp]: "created_titles (fst (io_return x)) = []"
  by simp

lemma created_raise [simp]: "created_titles (fst (io_raise e)) = []"
  by (simp add: io_raise_def)

lemma created_requests_url [simp]: "created_titles (fst (requests_url fetch url)) = []"
  by (simp add: requests_url_def Let_def)

lemma created_requests_post [simp]: "created_titles (fst (requests_post env url h c)) = []"
  by (simp add: requests_post_def Let_def)

lemma created_cmd_run [simp]: "created_titles (fst (cmd_run env cmd cwd)) = []"
  by (simp add: cmd_run_def split: prod.splits)

lemma created_pw_get_patch [simp]: "created_titles (fst (pw_get_patch env i)) = []"
  unfolding pw_get_patch_def by (intro created_bind) simp_all

lemma created_git_checkout [simp]: "created_titles (fst (git_checkout env b cwd c)) = []"
  unfolding git_checkout_def Let_def by (intro created_bind) (simp_all split: prod.splits)

lemma created_git_push [simp]: "created_titles (fst (git_push env r b cwd f)) = []"
  unfolding git_push_def Let_def by (intro created_bind) (simp_all split: prod.splits)

lemma created_pw_submit_check [simp]:
  "created_titles (fst (pw_submit_check env i st c d t)) = []"
  by (simp add: pw_submit_check_def Let_def requests_post_def split: option.splits)

lemma created_submit_unless_disabled [simp]:
  "created_titles (fst (submit_unless_disabled env a i st d)) = []"
  by (simp add: submit_unless_disabled_def created_bind)

lemma created_apply_patch [simp]: "created_titles (fst (apply_patch env a dir p)) = []"
  unfolding apply_patch_def Let_def git_am_def git_am_abort_def
  by (intro created_bind) (auto simp: io_emit_def intro!: created_bind)

lemma created_apply_patches [simp]: "created_titles (fst (apply_patches env a dir ps)) = []"
  by (induction ps) (auto split: prod.splits sum.splits option.splits
      dest: arg_cong [where f = "\<lambda>r. created_titles (fst r)"])

lemma created_email_compose [simp]: "created_titles (fst (email_compose env cfg s t)) = []"
  by (simp add: email_compose_def email_sendmail_def Let_def io_raise_def
      split: option.splits list.splits smtp_outcome.splits)

lemma created_series_checked [simp]: "created_titles (fst (already_checked env a s)) = []"
  by (auto simp: already_checked_def series_checked_def io_raise_def split: list.splits
      intro!: created_bind)

lemma created_collect_files [simp]: "created_titles (fst (collect_files env ps fl)) = []"
  by (induction ps arbitrary: fl)
     (auto split: prod.splits sum.splits dest: arg_cong [where f = "\<lambda>r. created_titles (fst r)"])

lemma created_filter [simp]: "created_titles (fst (filter_repo_type env d s dir)) = []"
  by (auto simp: filter_repo_type_def series_get_file_list_def io_raise_def
      split: sum.splits bool.splits intro!: created_bind)

lemma created_normalize [simp]: "created_titles (fst (normalize_name s)) = []"
  by (simp add: normalize_name_def io_raise_def split: option.splits list.splits)

lemma created_create_series_dir [simp]: "created_titles (fst (create_series_dir env i r)) = []"
  by (simp add: create_series_dir_def Let_def)


lemma created_create_pr:
  assumes "t \<in> set (created_titles (fst (create_pr env s base head)))"
  shows "tagged_title (series_id s) t"
proof (cases "patches s")
  case Nil
  with assms show ?thesis by (simp add: create_pr_def Let_def io_raise_def)
next
  case (Cons p ps)
  obtain es r where g: "pw_get_patch env (pid p) = (es, r)"
    by (cases "pw_get_patch env (pid p)")
  have es: "created_titles es = []"
    using created_pw_get_patch [of env "pid p"] g by simp
  from assms Cons g es show ?thesis
    by (cases r)
       (auto simp: create_pr_def Let_def github_create_pr_def tagged_title_def PR_TITLE_PREFIX_def)
qed

lemma created_apply_series:
  "t \<in> set (created_titles (fst (apply_series env a cfg i s dir))) \<Longrightarrow> tagged_title (series_id s) t"
proof -
  assume t: "t \<in> set (created_titles (fst (apply_series env a cfg i s dir)))"
  obtain es r where ap: "apply_patches env a dir (patches s) = (es, r)"
    by (cases "apply_patches env a dir (patches s)")
  have es: "created_titles es = []"
    using created_apply_patches [of env a dir "patches s"] ap by simp
  obtain es' r' where gp: "git_push env ''origin'' (py_str i) (src_dir a) False = (es', r')"
    by (cases "git_push env ''origin'' (py_str i) (src_dir a) False")
  have es': "created_titles es' = []"
    using created_git_push [of env "''origin''" "py_str i" "src_dir a" False] gp by simp
  from t ap gp es es' show ?thesis
    by (cases r; cases r')
       (auto simp: apply_series_def created_create_pr split: if_splits prod.splits)
qed


lemma created_bind_elim:
  assumes "t \<in> set (created_titles (fst (io_bind m f)))"
  shows "t \<in> set (created_titles (fst m))
         \<or> (\<exists>x. snd m = Inr x \<and> t \<in> set (created_titles (fst (f x))))"
proof (cases m)
  case (Pair es r)
  with assms show ?thesis by (cases r) auto
qed

lemma normalize_name_id:
  "snd (normalize_name s) = Inr s' \<Longrightarrow> series_id s' = series_id s"
  by (auto simp: normalize_name_def io_return_def io_raise_def split: option.splits list.splits)

lemma created_handle_series:
  assumes "t \<in> set (created_titles (fst (handle_series env a cfg github_pulls root i s)))"
  shows "tagged_title (series_id s) t \<and> \<not> github_pr_exist github_pulls i"
proof -
  define gate where "gate s' =
    (case repo_details cfg (key_str a) of
       None \<Rightarrow> io_raise (KeyError (key_str a))
     | Some detail \<Rightarrow> filter_repo_type env detail s' (src_dir a))" for s'
  define rest where "rest s' =
     io_bind (create_series_dir env i root) (\<lambda>series_dir.
     io_bind (git_checkout env (branch a) (src_dir a) False) (\<lambda>on_base.
     if \<not> on_base then io_return () else
     io_bind (git_checkout env (py_str i) (src_dir a) True) (\<lambda>on_branch.
     if \<not> on_branch then io_return () else
     apply_series env a cfg i s' series_dir)))" for s'
  have hs: "handle_series env a cfg github_pulls root i s =
     io_bind (normalize_name s) (\<lambda>s'. io_bind (gate s') (\<lambda>relevant.
       if \<not> relevant then io_return () else
       if github_pr_exist github_pulls i then io_return () else rest s'))"
    unfolding handle_series_def gate_def rest_def by (rule refl)
  have g: "created_titles (fst (gate s')) = []" for s'
    by (simp add: gate_def split: option.splits)
  have r: "tagged_title (series_id s') t" if "t \<in> set (created_titles (fst (rest s')))" for s'
  proof -
    from that have "\<exists>dir. t \<in> set (created_titles (fst (apply_series env a cfg i s' dir)))"
      unfolding rest_def
      by (auto dest!: created_bind_elim split: if_splits; blast)
    then show ?thesis by (auto dest: created_apply_series)
  qed
  from assms obtain s' where n: "snd (normalize_name s) = Inr s'"
    and t1: "t \<in> set (created_titles (fst (io_bind (gate s') (\<lambda>relevant.
       if \<not> relevant then io_return () else
       if github_pr_exist github_pulls i then io_return () else rest s'))))"
    unfolding hs by (auto dest: created_bind_elim)
  from t1 have "\<not> github_pr_exist github_pulls i \<and> t \<in> set (created_titles (fst (rest s')))"
    by (auto dest: created_bind_elim simp: g split: if_splits)
  with n r [of s'] show ?thesis by (simp add: normalize_name_id)
qed

lemma created_process_series:
  assumes "t \<in> set (created_titles (fst (process_series env a cfg github_pulls root (i, s))))"
  shows "tagged_title (series_id s) t \<and> \<not> github_pr_exist github_pulls i"
proof -
  from assms have "t \<in> set (created_titles (fst (handle_series env a cfg github_pulls root i s)))"
    by (auto simp: process_series_def dest: created_bind_elim split: if_splits)
  then show ?thesis by (rule created_handle_series)
qed


text \<open>
  A character that does not begin one of the four long characters is read alone; the
  characters of a tag are such.
\<close>

definition plain :: "char \<Rightarrow> bool" where
  "plain c = (c \<notin> {CHR 0xE2, CHR 0xC5, CHR 0xC4})"

lemma startswith_Cons: "startswith (c # cs) (p # ps) = (c = p \<and> startswith cs ps)"
  by (simp add: startswith_def)

lemma next_folded_plain: "plain c \<Longrightarrow> next_folded (c # cs) = Some (lower c, cs)"
  by (simp add: next_folded_def plain_def startswith_Cons)

lemma match_here_prefix: "\<forall>c \<in> set lit. plain c \<Longrightarrow> match_here lit (lit @ after)"
  by (induction lit) (simp_all add: next_folded_plain)

lemma search_from_contains:
  assumes "\<forall>c \<in> set lit. plain c"
  shows "search_from lit (before @ lit @ after)"
proof (induction before)
  case Nil
  show ?case
  proof (cases "lit @ after")
    case Nil
    then show ?thesis by simp
  next
    case (Cons c cs)
    have "match_here lit (lit @ after)" using assms by (rule match_here_prefix)
    with Cons show ?thesis by simp
  qed
next
  case (Cons c before)
  then show ?case by simp
qed

lemma re_search_literal_icase_contains:
  "\<forall>c \<in> set lit. plain c \<Longrightarrow> re_search_literal_icase lit (before @ lit @ after)"
  unfolding re_search_literal_icase_def by (rule search_from_contains)

lemma digit_char_plain: "m < 10 \<Longrightarrow> plain (digit_char m)"
proof -
  assume "m < 10"
  then consider "m = 0" | "m = 1" | "m = 2" | "m = 3" | "m = 4" | "m = 5" | "m = 6" | "m = 7"
    | "m = 8" | "m = 9" by fastforce
  then show ?thesis by cases (simp_all add: digit_char_def plain_def)
qed

lemma str_nat_plain: "c \<in> set (str_nat n) \<Longrightarrow> plain c"
proof (induction n rule: str_nat.induct)
  case (1 n)
  show ?case
  proof (cases "n < 10")
    case True
    with "1.prems" have "c = digit_char n" by (subst (asm) str_nat.simps) simp
    with True show ?thesis by (simp add: digit_char_plain)
  next
    case False
    with "1.prems" have "c \<in> set (str_nat (n div 10)) \<or> c = digit_char (n mod 10)"
      by (subst (asm) str_nat.simps) auto
    then show ?thesis
    proof
      assume "c \<in> set (str_nat (n div 10))"
      with False "1.IH" show ?thesis by simp
    next
      assume "c = digit_char (n mod 10)"
      then show ?thesis by (simp add: digit_char_plain)
    qed
  qed
qed

lemma py_str_plain: "c \<in> set (py_str i) \<Longrightarrow> plain c"
proof (cases "i < 0")
  case True
  assume "c \<in> set (py_str i)"
  with True have "c = CHR ''-'' \<or> c \<in> set (str_nat (nat (- i)))" by (simp add: py_str_def)
  then show ?thesis
  proof
    assume "c = CHR ''-''"
    then show ?thesis by (simp add: plain_def)
  next
    assume "c \<in> set (str_nat (nat (- i)))"
    then show ?thesis by (rule str_nat_plain)
  qed
next
  case False
  assume "c \<in> set (py_str i)"
  with False have "c \<in> set (str_nat (nat i))" by (simp add: py_str_def)
  then show ?thesis by (rule str_nat_plain)
qed

lemma tag_plain: "\<forall>c \<in> set (''PW_SID:'' @ py_str i). plain c"
proof
  fix c
  assume "c \<in> set (''PW_SID:'' @ py_str i)"
  then have "c \<in> set ''PW_SID:'' \<or> c \<in> set (py_str i)" by (simp only: set_append Un_iff)
  then show "plain c"
  proof
    assume "c \<in> set ''PW_SID:''"
    then have "c = CHR ''P'' \<or> c = CHR ''W'' \<or> c = CHR ''_'' \<or> c = CHR ''S''
      \<or> c = CHR ''I'' \<or> c = CHR ''D'' \<or> c = CHR '':''" by simp
    then show ?thesis by (elim disjE) (simp_all add: plain_def)
  next
    assume "c \<in> set (py_str i)"
    then show ?thesis by (rule py_str_plain)
  qed
qed

lemma github_pr_exist_iff:
  "github_pr_exist github_pulls i \<longleftrightarrow>
     (\<exists>p \<in> set github_pulls. re_search_literal_icase (''PW_SID:'' @ py_str i) (pull_title p))"
  by (induction github_pulls) auto

lemma tagged_title_found:
  "tagged_title i t \<Longrightarrow> re_search_literal_icase (''PW_SID:'' @ py_str i) t"
proof -
  assume "tagged_title i t"
  then obtain name where "t = ''['' @ (''PW_SID:'' @ py_str i) @ (''] '' @ name)"
    by (auto simp: tagged_title_def)
  then show ?thesis by (simp only: re_search_literal_icase_contains [OF tag_plain])
qed

lemma process_series_pulls:
  assumes "github_pr_exist pulls2 i = github_pr_exist pulls1 i"
  shows "process_series env a cfg pulls2 root (i, s) = process_series env a cfg pulls1 root (i, s)"
  unfolding process_series_def handle_series_def using assms by (simp cong del: if_weak_cong)

lemma io_foreach_ok_each:
  "snd (io_foreach f xs) = Inr () \<Longrightarrow> \<forall>x \<in> set xs. snd (f x) = Inr ()"
  by (induction xs) (auto split: prod.splits sum.splits)

lemma created_foreach:
  "\<forall>x \<in> set xs. created_titles (fst (f x)) = [] \<Longrightarrow> created_titles (fst (io_foreach f xs)) = []"
  by (induction xs) (auto split: prod.splits sum.splits)



lemma demo_series_1:
  "patches (demo_series 1) = [demo_patch 11 ''first'', demo_patch 12 ''second'']"
  "series_name (demo_series 1) = Some ''Bluetooth: series 1''"
  "series_id (demo_series 1) = 1"
  by (simp_all add: demo_series_def py_str_demo)

lemma demo_patch_fields:
  "pid (demo_patch n label) = n" "mbox (demo_patch n label) = ''mbox/'' @ py_str n"
  by (simp_all add: demo_patch_def)

lemma demo_first_run_on:
  assumes "get_patch env = get_patch demo_env" and "get_mbox env = get_mbox demo_env"
    and "post_check env = post_check demo_env" and "environ env = environ demo_env"
    and "run_cmd env = run_cmd demo_env" and "path_exists env = path_exists demo_env"
    and "temp_root env = temp_root demo_env" and "re_search env = re_search demo_env"
    and "create_pull_ok env = create_pull_ok demo_env"
  shows
  "series_loop env demo_args demo_config [] [(1, demo_series 1)] =
     ([Http_Get ''https://patchwork.kernel.org/api/patches/11'',
       Makedirs ''/tmp/pw/1'',
       Cmd_Run [''git'', ''checkout'', ''workflow''] ''/src'',
       Cmd_Run [''git'', ''checkout'', ''-b'', ''1''] ''/src'']
      @ fetch_trace env demo_args ''/tmp/pw/1'' (demo_patch 11 ''first'')
      @ submit_trace ''secret'' (demo_patch 11 ''first'') 1 ''Success''
      @ fetch_trace env demo_args ''/tmp/pw/1'' (demo_patch 12 ''second'')
      @ submit_trace ''secret'' (demo_patch 12 ''second'') 1 ''Success''
      @ [Cmd_Run [''git'', ''push'', ''origin'', ''1''] ''/src'',
         Http_Get ''https://patchwork.kernel.org/api/patches/11'',
         Create_Pull ''[PW_SID:1] Bluetooth: series 1'' ''commit message'' ''workflow'' ''1''],
      Inr ())"
proof -
  have ap: "apply_patch env demo_args ''/tmp/pw/1'' (demo_patch n label) =
      (fetch_trace env demo_args ''/tmp/pw/1'' (demo_patch n label)
       @ submit_trace ''secret'' (demo_patch n label) 1 ''Success'', Inr None)"
    if "n = 11 \<or> n = 12" for n label
    using that
    by (intro apply_patch_applies)
       (auto simp: assms demo_flags demo_env_fields am_result_def check_accepted_def demo_patch_fields
          py_str_demo path_join_def startswith_def)
  have chk: "already_checked env demo_args (demo_series 1) =
      ([Http_Get ''https://patchwork.kernel.org/api/patches/11''], Inr False)"
    by (simp add: already_checked_def demo_flags series_checked_def demo_series_1 demo_patch_fields
        pw_get_patch_ok assms demo_env_fields PW_BASE_URL_def py_str_demo)
  have flt: "filter_repo_type env demo_detail (demo_series 1) ''/src'' = ([], Inr True)"
    by (simp add: filter_repo_type_def demo_detail_def demo_series_1 assms demo_env_fields
        re_search_literal_icase_def next_folded_def lower_def startswith_def io_return_def)
  have cfg: "repo_details demo_config ''kernel'' = Some demo_detail"
    by (simp add: demo_config_def demo_detail_def)
  have ser: "apply_series env demo_args demo_config 1 (demo_series 1) ''/tmp/pw/1'' =
     (fetch_trace env demo_args ''/tmp/pw/1'' (demo_patch 11 ''first'')
      @ submit_trace ''secret'' (demo_patch 11 ''first'') 1 ''Success''
      @ fetch_trace env demo_args ''/tmp/pw/1'' (demo_patch 12 ''second'')
      @ submit_trace ''secret'' (demo_patch 12 ''second'') 1 ''Success''
      @ [Cmd_Run [''git'', ''push'', ''origin'', ''1''] ''/src'',
         Http_Get ''https://patchwork.kernel.org/api/patches/11'',
         Create_Pull ''[PW_SID:1] Bluetooth: series 1'' ''commit message'' ''workflow'' ''1''],
      Inr ())"
    by (simp add: apply_series_def demo_series_1 ap demo_flags git_push_def cmd_run_def
        assms demo_env_fields create_pr_def demo_patch_fields pw_get_patch_ok PW_BASE_URL_def
        py_str_demo github_create_pr_def PR_TITLE_PREFIX_def io_return_def Let_def)
  show ?thesis
    by (simp add: series_loop_def process_series_def chk handle_series_def normalize_name_def
        demo_series_1 demo_flags cfg flt assms demo_env_fields create_series_dir_def path_join_def
        startswith_def py_str_demo git_checkout_def cmd_run_def ser io_return_def Let_def)
qed

lemma demo_first_run:
  "series_loop demo_env demo_args demo_config [] [(1, demo_series 1)] =
     ([Http_Get ''https://patchwork.kernel.org/api/patches/11'',
       Makedirs ''/tmp/pw/1'',
       Cmd_Run [''git'', ''checkout'', ''workflow''] ''/src'',
       Cmd_Run [''git'', ''checkout'', ''-b'', ''1''] ''/src'']
      @ fetch_trace demo_env demo_args ''/tmp/pw/1'' (demo_patch 11 ''first'')
      @ submit_trace ''secret'' (demo_patch 11 ''first'') 1 ''Success''
      @ fetch_trace demo_env demo_args ''/tmp/pw/1'' (demo_patch 12 ''second'')
      @ submit_trace ''secret'' (demo_patch 12 ''second'') 1 ''Success''
      @ [Cmd_Run [''git'', ''push'', ''origin'', ''1''] ''/src'',
         Http_Get ''https://patchwork.kernel.org/api/patches/11'',
         Create_Pull ''[PW_SID:1] Bluetooth: series 1'' ''commit message'' ''workflow'' ''1''],
      Inr ())"
  by (rule demo_first_run_on) simp_all


lemma demo_created:
  "created_titles (fetch_trace env a dir p) = []"
  "created_titles (submit_trace token p state description) = []"
  by (simp_all add: fetch_trace_def submit_trace_def am_call_def check_post_def)

lemma demo_pr_exist: "github_pr_exist demo_pulls 2"
  by (simp add: demo_pulls_def py_str_demo re_search_literal_icase_def next_folded_def lower_def
      startswith_def)


lemma demo_env_open_fields:
  "get_series (demo_env_open pulls) = get_series demo_env"
  "get_patch (demo_env_open pulls) = get_patch demo_env"
  "get_mbox (demo_env_open pulls) = get_mbox demo_env"
  "post_check (demo_env_open pulls) = post_check demo_env"
  "environ (demo_env_open pulls) = environ demo_env"
  "run_cmd (demo_env_open pulls) = run_cmd demo_env"
  "path_exists (demo_env_open pulls) = path_exists demo_env"
  "temp_root (demo_env_open pulls) = temp_root demo_env"
  "load_config (demo_env_open pulls) = load_config demo_env"
  "re_search (demo_env_open pulls) = re_search demo_env"
  "create_pull_ok (demo_env_open pulls) = create_pull_ok demo_env"
  "git_ref_exists (demo_env_open pulls) = git_ref_exists demo_env"
  "open_pulls (demo_env_open pulls) r = pulls"
  "get_pull (demo_env_open pulls) 106 = Some demo_guard_pull"
  "get_patches (demo_env_open pulls) url =
     \<lparr>status_code = 200,
      body = [\<lparr>item_id = 11, item_series = Some [1]\<rparr>, \<lparr>item_id = 12, item_series = Some [1]\<rparr>],
      links_next = None\<rparr>"
  by (simp_all add: demo_env_open_def)

lemma demo_discovery:
  "get_new_series (demo_env_open pulls) [''1'', ''2''] =
     Some ([Http_Get ''https://patchwork.kernel.org/api/patches/?project=395&archived=0&state=1&state=2'',
            Http_Get ''https://patchwork.kernel.org/api/series/1''],
           Inr [(1, demo_series 1)])"
proof -
  have pages: "pw_get_patches_by_state (demo_env_open pulls) [''1'', ''2''] =
     Some ([Http_Get ''https://patchwork.kernel.org/api/patches/?project=395&archived=0&state=1&state=2''],
           Inr [\<lparr>item_id = 11, item_series = Some [1]\<rparr>, \<lparr>item_id = 12, item_series = Some [1]\<rparr>])"
    unfolding pw_get_patches_by_state_def
    by (subst read_pages.simps)
       (simp add: requests_url_def demo_env_open_fields patches_url_def PW_BASE_URL_def
          PW_PROJECT_ID_def)
  have ser: "pw_get_series (demo_env_open pulls) 1 =
     ([Http_Get ''https://patchwork.kernel.org/api/series/1''], Inr (demo_series 1))"
    by (simp add: pw_get_series_def requests_url_def demo_env_open_fields demo_env_def
        PW_BASE_URL_def py_str_demo io_return_def)
  show ?thesis
    by (simp add: get_new_series_def pages ser)
qed

lemma demo_guard:
  "github_pr_exist [demo_guard_pull] 1"
  "get_pw_sid (pull_title demo_guard_pull) = 12"
  by (simp_all add: demo_guard_pull_def py_str_demo re_search_literal_icase_def next_folded_def
      lower_def startswith_def get_pw_sid_def re_search_sid_def is_digit_def py_int_def
      digit_val_def)

lemma demo_guarded_loop:
  "series_loop (demo_env_open pulls) demo_args demo_config [demo_guard_pull] [(1, demo_series 1)] =
     ([Http_Get ''https://patchwork.kernel.org/api/patches/11''], Inr ())"
proof -
  have chk: "already_checked (demo_env_open pulls) demo_args (demo_series 1) =
      ([Http_Get ''https://patchwork.kernel.org/api/patches/11''], Inr False)"
    by (simp add: already_checked_def demo_flags series_checked_def demo_series_1 demo_patch_fields
        pw_get_patch_ok demo_env_open_fields demo_env_fields PW_BASE_URL_def py_str_demo)
  have flt: "filter_repo_type (demo_env_open pulls) demo_detail (demo_series 1) ''/src'' = ([], Inr True)"
    by (simp add: filter_repo_type_def demo_detail_def demo_series_1 demo_env_open_fields
        demo_env_fields re_search_literal_icase_def next_folded_def lower_def startswith_def
        io_return_def)
  have cfg: "repo_details demo_config ''kernel'' = Some demo_detail"
    by (simp add: demo_config_def demo_detail_def)
  show ?thesis
    by (simp add: series_loop_def process_series_def chk handle_series_def normalize_name_def
        demo_series_1 demo_flags cfg flt demo_guard_pull_def py_str_demo
        re_search_literal_icase_def next_folded_def lower_def startswith_def io_return_def)
qed

lemma demo_guard_closed:
  "clean_up (demo_env_open pulls) demo_args [(1, demo_series 1)] [demo_guard_pull] =
     ([Get_Pull 106, Edit_Closed 106, Get_Git_Ref ''heads/12'', Delete_Ref ''heads/12''], Inr ())"
proof -
  have "github_close_pr (demo_env_open pulls) 106 =
     ([Get_Pull 106, Edit_Closed 106, Get_Git_Ref (''heads/'' @ head_ref demo_guard_pull),
       Delete_Ref (''heads/'' @ head_ref demo_guard_pull)], Inr ())"
    by (rule github_close_pr_ok) (simp_all add: demo_env_open_fields demo_env_fields)
  then show ?thesis
    by (simp add: clean_up_def clean_up_pr_def demo_guard demo_flags)
       (simp add: demo_guard_pull_def)
qed


end
